theory Spec2Isabelle
  imports Complex_Main "HOL-Library.AList"
begin

section \<open>Backoff policy (src/utils/helpers.ts)\<close>

text \<open>
  JavaScript numbers are modelled by exact rationals: the quantities the monitor computes
  with here (attempt numbers, millisecond delays, block numbers, timestamps) are integers or
  dyadic fractions far below \<open>2^53\<close>, where double arithmetic is exact. Not modelled is the
  overflow of \<open>Math.pow(2, attempt - 1)\<close> to \<open>Infinity\<close> for attempt numbers above 1024.

  \<^verbatim>\<open>
  export function calculateBackoffDelay(attempt: number, baseDelay: number = 1000,
                                        maxDelay: number = 30000): number {
    return Math.min(baseDelay * Math.pow(2, attempt - 1), maxDelay);
  }
  \<close>
\<close>

definition calculateBackoffDelay :: "int \<Rightarrow> rat \<Rightarrow> rat \<Rightarrow> rat" where
  "calculateBackoffDelay attempt baseDelay maxDelay =
     min (baseDelay * (2 powi (attempt - 1))) maxDelay"

text \<open>The call with both default parameters, as every call site in the repository uses it.\<close>

definition calculateBackoffDelay_default :: "int \<Rightarrow> rat" where
  "calculateBackoffDelay_default attempt = calculateBackoffDelay attempt 1000 30000"

section \<open>Block timestamp cache (class BlockTimeManager, src/rpc/index.ts)\<close>

text \<open>
  \<^verbatim>\<open>
  export class BlockTimeManager {
    private blockTimestamps = new Map<number, number>();
    private maxCacheSize = 100;
  \<close>
  A JavaScript \<open>Map\<close> keeps its entries in insertion order with unique keys: it is an
  association list whose \<open>set\<close> replaces the value of a present key in place and appends an
  absent one (\<open>AList.update\<close>), and whose \<open>size\<close> is the length of that list. Block numbers
  and timestamps are integers.
\<close>

record BlockTimeManager =
  blockTimestamps :: "(int \<times> int) list"
  maxCacheSize :: nat

definition new_BlockTimeManager :: BlockTimeManager where
  "new_BlockTimeManager = \<lparr>blockTimestamps = [], maxCacheSize = 100\<rparr>"

definition cache_keys :: "BlockTimeManager \<Rightarrow> int list" where
  "cache_keys mgr = map fst (blockTimestamps mgr)"

definition cache_has :: "BlockTimeManager \<Rightarrow> int \<Rightarrow> bool" where
  "cache_has mgr blockNumber = (blockNumber \<in> set (cache_keys mgr))"

definition cache_get :: "BlockTimeManager \<Rightarrow> int \<Rightarrow> int option" where
  "cache_get mgr blockNumber = map_of (blockTimestamps mgr) blockNumber"

definition getCacheSize :: "BlockTimeManager \<Rightarrow> nat" where
  "getCacheSize mgr = length (blockTimestamps mgr)"

definition clearCache :: "BlockTimeManager \<Rightarrow> BlockTimeManager" where
  "clearCache mgr = mgr\<lparr>blockTimestamps := []\<rparr>"

text \<open>
  The two statements that follow a successful fetch:
  \<^verbatim>\<open>
        this.blockTimestamps.set(blockNumber, timestamp);

        // Clean up old blocks (keep last N blocks)
        if (this.blockTimestamps.size > this.maxCacheSize) {
          const oldestBlock = Math.min(...this.blockTimestamps.keys());
          this.blockTimestamps.delete(oldestBlock);
        }
  \<close>
\<close>

definition cache_set :: "int \<Rightarrow> int \<Rightarrow> BlockTimeManager \<Rightarrow> BlockTimeManager" where
  "cache_set blockNumber timestamp mgr =
     mgr\<lparr>blockTimestamps := AList.update blockNumber timestamp (blockTimestamps mgr)\<rparr>"

definition cache_cleanup :: "BlockTimeManager \<Rightarrow> BlockTimeManager" where
  "cache_cleanup mgr =
     (if getCacheSize mgr > maxCacheSize mgr
      then let oldestBlock = Min (set (cache_keys mgr))
           in mgr\<lparr>blockTimestamps := AList.delete oldestBlock (blockTimestamps mgr)\<rparr>
      else mgr)"

definition cache_store :: "int \<Rightarrow> int \<Rightarrow> BlockTimeManager \<Rightarrow> BlockTimeManager" where
  "cache_store blockNumber timestamp mgr = cache_cleanup (cache_set blockNumber timestamp mgr)"

text \<open>
  The provider capability \<open>provider.getBlock(blockNumber)\<close> answers with a block (of which
  only the \<open>timestamp\<close> field, in seconds, is read), with \<open>null\<close>, or by raising. The answer
  to the fetch made in attempt \<open>k\<close> is \<open>provider k\<close>. What the call does to the outside world
  is recorded as a trace of effects: provider fetches and sleeps. Log output is not modelled;
  the log line after a successful fetch formats the timestamp as a date, which is defined
  for every timestamp within the range of JavaScript dates, as those of a chain are.
\<close>

datatype getBlock_result = Block int | NoBlock | Throws

datatype effect = Fetch int | Sleep rat

type_synonym fetch_outcome = "int option \<times> BlockTimeManager \<times> effect list"

definition after :: "effect list \<Rightarrow> fetch_outcome \<Rightarrow> fetch_outcome" where
  "after es out = (case out of (r, mgr, tr) \<Rightarrow> (r, mgr, es @ tr))"

text \<open>
  The retry loop \<^verbatim>\<open>for (let attempt = 1; attempt <= maxRetries; attempt++)\<close> of
  \<open>getBlockTimestamp\<close>, entered at the given attempt number; the \<open>return null\<close> after the loop
  is the outer \<open>else\<close>.
\<close>

function fetch_loop ::
  "(int \<Rightarrow> getBlock_result) \<Rightarrow> int \<Rightarrow> int \<Rightarrow> int \<Rightarrow> BlockTimeManager \<Rightarrow> fetch_outcome" where
  "fetch_loop provider blockNumber maxRetries attempt mgr =
     (if attempt \<le> maxRetries then
        (case provider attempt of
           NoBlock \<Rightarrow>
             if attempt < maxRetries
             then after [Fetch blockNumber, Sleep (calculateBackoffDelay_default attempt)]
                    (fetch_loop provider blockNumber maxRetries (attempt + 1) mgr)
             else (None, mgr, [Fetch blockNumber])
         | Block ts \<Rightarrow>
             let timestamp = ts * 1000
             in (Some timestamp, cache_store blockNumber timestamp mgr, [Fetch blockNumber])
         | Throws \<Rightarrow>
             if attempt < maxRetries
             then after [Fetch blockNumber, Sleep (calculateBackoffDelay_default attempt)]
                    (fetch_loop provider blockNumber maxRetries (attempt + 1) mgr)
             else (None, mgr, [Fetch blockNumber]))
      else (None, mgr, []))"
  by pat_completeness auto
termination
  by (relation "measure (\<lambda>(provider, blockNumber, maxRetries, attempt, mgr).
        nat (maxRetries + 1 - attempt))") auto

declare fetch_loop.simps [simp del]

definition getBlockTimestamp ::
  "(int \<Rightarrow> getBlock_result) \<Rightarrow> int \<Rightarrow> int \<Rightarrow> BlockTimeManager \<Rightarrow> fetch_outcome" where
  "getBlockTimestamp provider blockNumber maxRetries mgr =
     (if cache_has mgr blockNumber
      then (cache_get mgr blockNumber, mgr, [])
      else fetch_loop provider blockNumber maxRetries 1 mgr)"

text \<open>The call with the default \<open>maxRetries = 3\<close>, as the event handlers make it.\<close>

definition getBlockTimestamp_default ::
  "(int \<Rightarrow> getBlock_result) \<Rightarrow> int \<Rightarrow> BlockTimeManager \<Rightarrow> fetch_outcome" where
  "getBlockTimestamp_default provider blockNumber mgr =
     getBlockTimestamp provider blockNumber 3 mgr"

text \<open>A run of successful insertions, in the order given.\<close>

definition store_all :: "(int \<times> int) list \<Rightarrow> BlockTimeManager \<Rightarrow> BlockTimeManager" where
  "store_all kvs mgr = fold (\<lambda>(k, v). cache_store k v) kvs mgr"

text \<open>The representation invariant of the map together with the capacity bound.\<close>

definition cache_ok :: "BlockTimeManager \<Rightarrow> bool" where
  "cache_ok mgr = (distinct (cache_keys mgr) \<and> getCacheSize mgr \<le> maxCacheSize mgr)"


text \<open>
  Vocabulary for statements about the retry loop: an attempt fails when the provider answers
  \<open>null\<close> or raises; the number of provider fetches in a trace.
\<close>

definition is_failure :: "getBlock_result \<Rightarrow> bool" where
  "is_failure r = (case r of Block ts \<Rightarrow> False | NoBlock \<Rightarrow> True | Throws \<Rightarrow> True)"

definition fetch_count :: "effect list \<Rightarrow> nat" where
  "fetch_count tr = length (filter (\<lambda>e. case e of Fetch b \<Rightarrow> True | Sleep d \<Rightarrow> False) tr)"

section \<open>Connection lifecycle manager (class RPCProvider, src/rpc/index.ts)\<close>

text \<open>
  \<^verbatim>\<open>
  export class RPCProvider {
    private provider: ethers.WebSocketProvider | null = null;
    private healthCheckInterval: NodeJS.Timeout | null = null;
    private reconnectAttempts = 0;
    private isConnected = false;

    constructor(
      private wsUrl: string,
      private maxReconnectAttempts: number = 10,
      private reconnectDelay: number = 5000,
      private healthCheckIntervalMs: number = 30000,
      private connectionTimeout: number = 10000
    ) {}
  \<close>
  Session handles and timer handles are numbered by the order in which sessions are opened.
  The record \<open>process\<close> extends the object by what the class does to its surroundings: the
  exit code once \<open>process.exit\<close> has been called (a terminated process runs nothing further),
  the number of sessions opened so far, and the trace of effects.
\<close>

datatype conn_effect = Open nat | Destroy nat | SleepFor rat | ProcessExit int

record RPCProvider =
  provider :: "nat option"
  healthCheckInterval :: "nat option"
  reconnectAttempts :: int
  isConnected :: bool
  wsUrl :: string
  maxReconnectAttempts :: int
  reconnectDelay :: rat
  healthCheckIntervalMs :: rat
  connectionTimeout :: rat

record process = RPCProvider +
  exited :: "int option"
  sessions :: nat
  effects :: "conn_effect list"

definition new_RPCProvider :: "string \<Rightarrow> process" where
  "new_RPCProvider url =
     \<lparr>provider = None, healthCheckInterval = None, reconnectAttempts = 0, isConnected = False,
      wsUrl = url, maxReconnectAttempts = 10, reconnectDelay = 5000,
      healthCheckIntervalMs = 30000, connectionTimeout = 10000,
      exited = None, sessions = 0, effects = []\<rparr>"

definition emit :: "conn_effect \<Rightarrow> process \<Rightarrow> process" where
  "emit e s = s\<lparr>effects := effects s @ [e]\<rparr>"

text \<open>
  The statements of \<open>reconnect()\<close> up to the point where the call first suspends, which is
  the teardown of the session if there is one (effect \<open>Destroy\<close>) and the sleep otherwise; in
  JavaScript they run to completion without interleaving with any other task:
  \<^verbatim>\<open>
    if (this.reconnectAttempts >= this.maxReconnectAttempts) {
      console.error(...);
      process.exit(1);
    }
    this.reconnectAttempts++;
    this.isConnected = false;
    if (this.healthCheckInterval) {
      clearInterval(this.healthCheckInterval);
      this.healthCheckInterval = null;
    }
    if (this.provider) {
      try {
        await this.provider.destroy();
  \<close>
\<close>

definition reconnect_enter :: "process \<Rightarrow> process" where
  "reconnect_enter s =
     (if reconnectAttempts s \<ge> maxReconnectAttempts s
      then emit (ProcessExit 1) (s\<lparr>exited := Some 1\<rparr>)
      else let s1 = s\<lparr>reconnectAttempts := reconnectAttempts s + 1,
                      isConnected := False,
                      healthCheckInterval := None\<rparr>
           in (case provider s1 of
                 Some h \<Rightarrow> emit (Destroy h) s1
               | None \<Rightarrow> s1))"

text \<open>
  The rest of \<open>reconnect()\<close> up to its call of \<open>connect()\<close>, with the sleep (effect
  \<open>SleepFor\<close>); a failure of \<open>destroy()\<close> is swallowed, so its outcome is not a parameter:
  \<^verbatim>\<open>
      } catch (e) {
        // Ignore destroy errors
      }
      this.provider = null;
    }
    console.log(...);
    await sleep(this.reconnectDelay);
  \<close>
\<close>

definition reconnect_resume :: "process \<Rightarrow> process" where
  "reconnect_resume s = emit (SleepFor (reconnectDelay s)) (s\<lparr>provider := None\<rparr>)"

text \<open>
  What the environment does to the \<open>n\<close>-th session that \<open>connect()\<close> tries to open: the
  constructor raises, the first block never arrives before the confirmation timeout, or
  the first block arrives.
\<close>

datatype handshake = OpenFails | Timeout | Confirmed

text \<open>
  \<open>connect()\<close> and \<open>reconnect()\<close> call each other: \<open>connect()\<close> calls \<open>this.reconnect()\<close> from
  its \<open>catch\<close>, \<open>reconnect()\<close> ends with \<open>await this.connect()\<close>. This is the chain of calls that
  one failure sets off, run on its own (no second trigger arrives meanwhile).
  \<^verbatim>\<open>
  async connect(): Promise<void> {
    try {
      this.provider = new ethers.WebSocketProvider(this.wsUrl);
      this.provider.on('error', ...);
      this.healthCheckInterval = setInterval(..., this.healthCheckIntervalMs);
      await new Promise<void>((resolve, reject) => { ... });
      this.reconnectAttempts = 0;
      this.isConnected = true;
    } catch (error) {
      this.reconnect();
    }
  }
  \<close>
\<close>

function connect :: "(nat \<Rightarrow> handshake) \<Rightarrow> process \<Rightarrow> process"
  and reconnect :: "(nat \<Rightarrow> handshake) \<Rightarrow> process \<Rightarrow> process" where
  "connect env s =
     (let n = sessions s;
          s0 = s\<lparr>sessions := n + 1\<rparr>
      in case env n of
           OpenFails \<Rightarrow> reconnect env s0
         | Timeout \<Rightarrow>
             reconnect env (emit (Open n) (s0\<lparr>provider := Some n, healthCheckInterval := Some n\<rparr>))
         | Confirmed \<Rightarrow>
             (emit (Open n) (s0\<lparr>provider := Some n, healthCheckInterval := Some n\<rparr>))
               \<lparr>reconnectAttempts := 0, isConnected := True\<rparr>)"
| "reconnect env s =
     (let s1 = reconnect_enter s
      in if exited s1 \<noteq> None then s1 else connect env (reconnect_resume s1))"
  by pat_completeness auto

termination
  by (relation "measure (\<lambda>x. case x of
        Inl (env, s) \<Rightarrow> 2 * nat (maxReconnectAttempts s - reconnectAttempts s) + 1
      | Inr (env, s) \<Rightarrow> 2 * nat (maxReconnectAttempts s - reconnectAttempts s))")
     (auto simp: emit_def reconnect_enter_def reconnect_resume_def Let_def
           split: if_splits option.splits)

declare connect.simps [simp del] reconnect.simps [simp del]

text \<open>Counting the fatal signals and the backoff sleeps in a trace.\<close>

definition exit_count :: "conn_effect list \<Rightarrow> nat" where
  "exit_count es = length (filter (\<lambda>e. case e of ProcessExit c \<Rightarrow> True | _ \<Rightarrow> False) es)"

definition sleep_count :: "conn_effect list \<Rightarrow> nat" where
  "sleep_count es = length (filter (\<lambda>e. case e of SleepFor d \<Rightarrow> True | _ \<Rightarrow> False) es)"

text \<open>
  The wording of the specification, for comparison with the test that \<open>reconnect()\<close> makes:
  the counter is incremented first and the call is fatal if the incremented counter exceeds
  the ceiling.
\<close>

definition spec_reconnect_is_fatal :: "int \<Rightarrow> int \<Rightarrow> bool" where
  "spec_reconnect_is_fatal attempts limit = (attempts + 1 > limit)"

text \<open>
  The two listeners that \<open>connect()\<close> installs. Each runs as a task of its own and calls
  \<open>this.reconnect()\<close> without awaiting it, so the listener's task ends where the call
  suspends. The health probe's timer callback reaches its \<open>catch\<close> when
  \<open>getBlockNumber()\<close> is rejected, which can happen after the timer has been cleared if the
  probe was already in flight.
  \<^verbatim>\<open>
      this.provider.on('error', (error: Error) => {
        if (this.healthCheckInterval) {
          clearInterval(this.healthCheckInterval);
        }
        this.reconnect();
      });

      this.healthCheckInterval = setInterval(async () => {
        try {
          await this.provider!.getBlockNumber();
        } catch (error) {
          if (this.healthCheckInterval) {
            clearInterval(this.healthCheckInterval);
            this.healthCheckInterval = null;
          }
          this.reconnect();
        }
      }, this.healthCheckIntervalMs);
  \<close>
\<close>

definition on_provider_error :: "process \<Rightarrow> process" where
  "on_provider_error s = reconnect_enter s"

definition on_health_check_failed :: "process \<Rightarrow> process" where
  "on_health_check_failed s = reconnect_enter (s\<lparr>healthCheckInterval := None\<rparr>)"

text \<open>
  How the chain of calls started at state \<open>s\<close> can end in state \<open>r\<close>: either the process has
  exited with code 1, the trace of \<open>s\<close> has been extended by effects of which the last, and
  only the last, is the exit, and the counter has not been reset; or the process is alive
  and connected with the counter at zero.
\<close>

definition reconnect_outcome :: "process \<Rightarrow> process \<Rightarrow> bool" where
  "reconnect_outcome s r =
     (((exited r = Some 1
          \<and> exit_count (effects r) = Suc (exit_count (effects s))
          \<and> take (length (effects s)) (effects r) = effects s
          \<and> last (effects r) = ProcessExit 1
          \<and> reconnectAttempts r \<ge> reconnectAttempts s
          \<and> reconnectAttempts r \<ge> maxReconnectAttempts r)
        \<or> (exited r = None
          \<and> exit_count (effects r) = exit_count (effects s)
          \<and> isConnected r \<and> reconnectAttempts r = 0 \<and> provider r \<noteq> None))
      \<and> maxReconnectAttempts r = maxReconnectAttempts s)"

text \<open>The state after \<open>initializeRPC\<close> has connected at the first try.\<close>

definition connected_state :: process where
  "connected_state = connect (\<lambda>n. Confirmed) (new_RPCProvider ''wss://bsc'')"

section \<open>Library functions used by the event handlers\<close>

text \<open>
  Values found in a decoded log: addresses and names are strings, quantities are bigints,
  and a property that is not there reads as \<open>undefined\<close>. \<open>a || b\<close> is \<open>a\<close> when \<open>a\<close> is truthy
  (a non-empty string, a non-zero bigint) and \<open>b\<close> otherwise.
\<close>

datatype jsval = Undefined | Str string | Big int

definition truthy :: "jsval \<Rightarrow> bool" where
  "truthy v = (case v of Undefined \<Rightarrow> False | Str s \<Rightarrow> s \<noteq> [] | Big n \<Rightarrow> n \<noteq> 0)"

definition js_or :: "jsval \<Rightarrow> jsval \<Rightarrow> jsval" where
  "js_or a b = (if truthy a then a else b)"

text \<open>
  The handlers take \<open>event: any\<close> and read \<open>event.args\<close> by name and by index, and
  \<open>event.log.blockNumber\<close> and \<open>event.log.transactionHash\<close>. The arguments are read as a
  JavaScript object: an absent name and an index out of range give \<open>undefined\<close>.
\<close>

record raw_args =
  named :: "(string \<times> jsval) list"
  positional :: "jsval list"

definition arg :: "raw_args \<Rightarrow> string \<Rightarrow> jsval" where
  "arg a k = (case map_of (named a) k of Some v \<Rightarrow> v | None \<Rightarrow> Undefined)"

definition arg_at :: "raw_args \<Rightarrow> nat \<Rightarrow> jsval" where
  "arg_at a i = (if i < length (positional a) then positional a ! i else Undefined)"

record raw_event =
  args :: raw_args
  blockNumber :: int
  transactionHash :: jsval

text \<open>Decimal numerals: \<open>n.toString()\<close> for a non-negative integer and for any integer.\<close>

definition digit_char :: "nat \<Rightarrow> char" where
  "digit_char n = ''0123456789'' ! (n mod 10)"

function dec_string :: "nat \<Rightarrow> string" where
  "dec_string n = (if n < 10 then [digit_char n] else dec_string (n div 10) @ [digit_char n])"
  by pat_completeness auto
termination
  by (relation "measure id") auto

declare dec_string.simps [simp del]

definition int_string :: "int \<Rightarrow> string" where
  "int_string i = (if i < 0 then CHR ''-'' # dec_string (nat (- i)) else dec_string (nat i))"

text \<open>
  \<open>ethers.formatUnits(value, decimals)\<close> belongs to the ethers library, not to this
  repository. It is modelled after the library's conversion of a fixed-point value to a
  string: the digits are padded with zeros to more than \<open>decimals\<close> places, the point is put
  \<open>decimals\<close> places from the end, and zeros are trimmed from both ends, leaving at least one
  digit on each side of the point; so \<open>formatUnits(1000000000000000000n, 18)\<close> is \<open>"1.0"\<close>.
\<close>

definition trim_leading :: "string \<Rightarrow> string" where
  "trim_leading w = (let t = dropWhile (\<lambda>c. c = CHR ''0'') w in if t = [] then ''0'' else t)"

definition trim_trailing :: "string \<Rightarrow> string" where
  "trim_trailing f = rev (trim_leading (rev f))"

definition formatUnits :: "int \<Rightarrow> nat \<Rightarrow> string" where
  "formatUnits v decimals =
     (let negative = (if v < 0 then ''-'' else '''');
          str = dec_string (nat \<bar>v\<bar>)
      in if decimals = 0 then negative @ str
         else let padded = replicate (Suc decimals - length str) (CHR ''0'') @ str;
                  index = length padded - decimals
              in negative @ trim_leading (take index padded) @ ''.''
                   @ trim_trailing (drop index padded))"

text \<open>
  A \<open>BigNumberish\<close> argument: a bigint (or an integral number) is taken as it is and
  \<open>undefined\<close> is rejected with an exception. How the library reads a string as a quantity is
  left open, as the parameter \<open>bigint_of_string\<close> (\<open>None\<close> when it raises).
  \<^verbatim>\<open>
  export function formatBNB(value: ethers.BigNumberish): string {
    return ethers.formatEther(value);
  }
  export function formatToken(value: ethers.BigNumberish, decimals: number = 18): string {
    return ethers.formatUnits(value, decimals);
  }
  \<close>
\<close>

datatype js_error = ProviderNotInitialized | ProviderNotConnected | InvalidBigNumberish

definition getBigInt :: "(string \<Rightarrow> int option) \<Rightarrow> jsval \<Rightarrow> js_error + int" where
  "getBigInt bigint_of_string v =
     (case v of
        Undefined \<Rightarrow> Inl InvalidBigNumberish
      | Big n \<Rightarrow> Inr n
      | Str s \<Rightarrow> (case bigint_of_string s of None \<Rightarrow> Inl InvalidBigNumberish | Some n \<Rightarrow> Inr n))"

definition formatToken :: "(string \<Rightarrow> int option) \<Rightarrow> jsval \<Rightarrow> js_error + string" where
  "formatToken bos value =
     (case getBigInt bos value of Inl e \<Rightarrow> Inl e | Inr n \<Rightarrow> Inr (formatUnits n 18))"

definition formatBNB :: "(string \<Rightarrow> int option) \<Rightarrow> jsval \<Rightarrow> js_error + string" where
  "formatBNB bos value =
     (case getBigInt bos value of Inl e \<Rightarrow> Inl e | Inr n \<Rightarrow> Inr (formatUnits n 18))"

text \<open>
  \<open>parseFloat\<close> is only ever applied to a string made by \<open>formatUnits\<close>: an optional minus
  sign, digits, a point, digits. On such a string it is the number written there (the
  rounding to a double is not modelled). Strings of other shapes do not reach it; the model
  reads the longest prefix of that shape and gives \<open>NaN\<close>, here \<open>None\<close>, when there is no digit
  to start with. A JavaScript number that may be \<open>NaN\<close> is a \<open>rat option\<close>.
\<close>

definition is_digit :: "char \<Rightarrow> bool" where
  "is_digit c = (c \<in> set ''0123456789'')"

definition digit_val :: "char \<Rightarrow> nat" where
  "digit_val c = of_char c - 48"

definition digits_val :: "string \<Rightarrow> nat" where
  "digits_val ds = foldl (\<lambda>acc c. 10 * acc + digit_val c) 0 ds"

definition parseFloat :: "string \<Rightarrow> rat option" where
  "parseFloat s =
     (let neg = (s \<noteq> [] \<and> hd s = CHR ''-'');
          body = (if neg then tl s else s);
          whole = takeWhile is_digit body;
          rest = dropWhile is_digit body;
          frac = (case rest of c # cs \<Rightarrow> if c = CHR ''.'' then takeWhile is_digit cs else [] | [] \<Rightarrow> []);
          magnitude = of_nat (digits_val whole) + of_nat (digits_val frac) / 10 ^ length frac
      in if whole = [] then None
         else Some (if neg then - magnitude else magnitude))"

definition js_positive :: "rat option \<Rightarrow> bool" where
  "js_positive x = (case x of None \<Rightarrow> False | Some r \<Rightarrow> r > 0)"

text \<open>
  \<^verbatim>\<open>
  export function calculateMarketCap(price: number, supply: number): number {
    return price * supply;
  }
  \<close>
\<close>

definition calculateMarketCap :: "rat option \<Rightarrow> rat option \<Rightarrow> rat option" where
  "calculateMarketCap price supply =
     (case (price, supply) of (Some p, Some s) \<Rightarrow> Some (p * s) | _ \<Rightarrow> None)"

text \<open>
  \<open>new Date(t).toISOString()\<close> for a time value \<open>t\<close> in milliseconds since the epoch, in the
  proleptic Gregorian calendar: \<open>YYYY-MM-DDTHH:mm:ss.sssZ\<close>, with a sign and six digits for a
  year outside 0..9999. It is applied to the current time only, which is always in the range
  of valid time values.
\<close>

definition pad_left :: "nat \<Rightarrow> string \<Rightarrow> string" where
  "pad_left n s = replicate (n - length s) (CHR ''0'') @ s"

definition civil_from_days :: "int \<Rightarrow> int \<times> int \<times> int" where
  "civil_from_days days =
     (let z = days + 719468;
          era = z div 146097;
          doe = z - era * 146097;
          yoe = (doe - doe div 1460 + doe div 36524 - doe div 146096) div 365;
          y = yoe + era * 400;
          doy = doe - (365 * yoe + yoe div 4 - yoe div 100);
          mp = (5 * doy + 2) div 153;
          d = doy - (153 * mp + 2) div 5 + 1;
          m = (if mp < 10 then mp + 3 else mp - 9)
      in (if m \<le> 2 then y + 1 else y, m, d))"

definition toISOString :: "int \<Rightarrow> string" where
  "toISOString t =
     (let days = t div 86400000;
          ms = t mod 86400000;
          (y, m, d) = civil_from_days days;
          year = (if 0 \<le> y \<and> y \<le> 9999 then pad_left 4 (dec_string (nat y))
                  else (if y < 0 then ''-'' else ''+'') @ pad_left 6 (dec_string (nat \<bar>y\<bar>)))
      in year @ ''-'' @ pad_left 2 (dec_string (nat m)) @ ''-'' @ pad_left 2 (dec_string (nat d))
           @ ''T'' @ pad_left 2 (dec_string (nat (ms div 3600000)))
           @ '':'' @ pad_left 2 (dec_string (nat (ms div 60000 mod 60)))
           @ '':'' @ pad_left 2 (dec_string (nat (ms div 1000 mod 60)))
           @ ''.'' @ pad_left 3 (dec_string (nat (ms mod 1000))) @ ''Z'')"

text \<open>
  \<^verbatim>\<open>
  export function generateKafkaTimestamp(): string {
    return new Date().toISOString();
  }
  \<close>
  The reading of the wall clock is an argument.
\<close>

definition generateKafkaTimestamp :: "int \<Rightarrow> string" where
  "generateKafkaTimestamp now = toISOString now"

section \<open>Event handlers and bus dispatch (the four.meme monitor with the Kafka producer)\<close>

text \<open>
  The canonical records of \<open>src/types/events.ts\<close>. All four event interfaces carry
  \<open>chain_id\<close>, \<open>token_mint\<close>, \<open>block_time\<close>, \<open>slot\<close>, \<open>signature\<close> and \<open>kafka_timestamp\<close>; these
  are the fields of the common part, which the four records extend. \<open>TokenSaleEvent\<close> has
  the fields of \<open>TokenPurchaseEvent\<close>. Fields that a handler copies from the log hold
  whatever value the log has there.
\<close>

record EventBase =
  chain_id :: int
  token_mint :: jsval
  block_time :: int
  slot :: int
  signature :: jsval
  kafka_timestamp :: string

record TokenCreateEvent = EventBase +
  token_name :: jsval
  token_symbol :: jsval
  creator_wallet :: jsval
  metadata_uri :: string
  initial_supply :: string

record TokenPurchaseEvent = EventBase +
  direction :: string
  buyer_wallet :: jsval
  token_amount :: string
  token_decimals :: int
  sol_amount :: string
  market_cap :: "rat option"

type_synonym TokenSaleEvent = TokenPurchaseEvent

record CompleteFourMemeMigrationEvent = EventBase +
  migrator_wallet :: jsval
  liquidity_pool :: jsval
  migration_fee :: string

datatype FourMemeEvent =
    Created TokenCreateEvent
  | Purchased TokenPurchaseEvent
  | Sold TokenSaleEvent
  | Migrated CompleteFourMemeMigrationEvent

definition event_token_mint :: "FourMemeEvent \<Rightarrow> jsval" where
  "event_token_mint e =
     (case e of Created r \<Rightarrow> token_mint r | Purchased r \<Rightarrow> token_mint r
      | Sold r \<Rightarrow> token_mint r | Migrated r \<Rightarrow> token_mint r)"

definition event_signature :: "FourMemeEvent \<Rightarrow> jsval" where
  "event_signature e =
     (case e of Created r \<Rightarrow> signature r | Purchased r \<Rightarrow> signature r
      | Sold r \<Rightarrow> signature r | Migrated r \<Rightarrow> signature r)"

record CreatedToken =
  created_token_mint :: jsval
  created_at :: int

text \<open>Topic names of \<open>config/config.ts\<close>.\<close>

definition TOKEN_RAW_CREATED :: string where "TOKEN_RAW_CREATED = ''token.raw.created''"
definition TOKEN_RAW_TRADE :: string where "TOKEN_RAW_TRADE = ''token.raw.trade''"
definition TOKEN_RAW_MIGRATED :: string where "TOKEN_RAW_MIGRATED = ''token.raw.migrated''"

text \<open>
  A message handed to the producer: topic, key, and the event whose JSON text is the value.
\<close>

record kafka_message =
  topic :: string
  key :: jsval
  payload :: FourMemeEvent

text \<open>
  The module state of the monitor: the singleton connection manager and block cache of
  \<open>src/rpc/index.ts\<close>, the created-token index, the Kafka producer (\<open>null\<close> or connected), and,
  as the record of what the module did to the outside, the messages delivered to the bus,
  the auxiliary contract calls made, and the effects of the block fetches.
\<close>

datatype aux_call = TotalSupplyCall jsval | FounderPairCall jsval

record monitor =
  rpcProvider :: "process option"
  blockTimeManager :: BlockTimeManager
  createdTokens :: "CreatedToken list"
  kafkaProducer :: "unit option"
  bus :: "kafka_message list"
  aux_calls :: "aux_call list"
  fetch_effects :: "effect list"

text \<open>
  What the outside world answers during one handler invocation: the provider's answers to
  \<open>getBlock\<close> by attempt, the result of \<open>getTokenTotalSupply\<close> (a bigint, or \<open>null\<close> after a
  failed call), the results of \<open>founder()\<close> and \<open>pair()\<close> (\<open>None\<close> if either fails), whether
  \<open>producer.send\<close> succeeds, the readings of the wall clock where the handler takes them, the
  text of \<open>Math.random().toString()\<close>, and how the library reads a string as a quantity.
\<close>

record world =
  getBlock :: "int \<Rightarrow> getBlock_result"
  totalSupply :: "int option"
  founder_pair :: "(jsval \<times> jsval) option"
  send_ok :: bool
  now_block_time :: int
  now_kafka :: int
  now_created :: int
  random_text :: string
  bigint_of_string :: "string \<Rightarrow> int option"

text \<open>
  \<^verbatim>\<open>
  async function initializeKafkaProducer() {
    try {
      kafkaProducer = kafkaClient.producer();
      await kafkaProducer.connect();
    } catch (error) {
      console.error(...);
      kafkaProducer = null;
    }
  }
  \<close>
\<close>

definition initializeKafkaProducer :: "bool \<Rightarrow> monitor \<Rightarrow> monitor" where
  "initializeKafkaProducer connect_ok m =
     (if connect_ok then m\<lparr>kafkaProducer := Some ()\<rparr> else m\<lparr>kafkaProducer := None\<rparr>)"

text \<open>
  \<^verbatim>\<open>
  async function sendToKafka(topic: string, event: FourMemeEvent) {
    if (!kafkaProducer) {
      console.log(...);
      return;
    }
    try {
      await kafkaProducer.send({
        topic,
        messages: [
          {
            key: event.token_mint || event.signature || Math.random().toString(),
            value: JSON.stringify(event),
          },
        ],
      });
    } catch (error) {
      console.error(...);
    }
  }
  \<close>
\<close>

definition kafka_key :: "world \<Rightarrow> FourMemeEvent \<Rightarrow> jsval" where
  "kafka_key w e = js_or (event_token_mint e) (js_or (event_signature e) (Str (random_text w)))"

definition sendToKafka :: "world \<Rightarrow> string \<Rightarrow> FourMemeEvent \<Rightarrow> monitor \<Rightarrow> monitor" where
  "sendToKafka w tp e m =
     (case kafkaProducer m of
        None \<Rightarrow> m
      | Some producer \<Rightarrow>
          if send_ok w
          then m\<lparr>bus := bus m @ [\<lparr>topic = tp, key = kafka_key w e, payload = e\<rparr>]\<rparr>
          else m)"

text \<open>
  The other publish function of the repository, with a producer of its own
  (\<open>producerInstance\<close>, connected on first use):
  \<^verbatim>\<open>
  export async function sendRawTokenEvent(topic: string, eventData: Record<string, any>) {
    try {
      const producer = await getProducer();
      await producer.send({
        topic: topic,
        messages: [
          {
            key: eventData.signature || `${topic}-${Date.now()}`,
            value: JSON.stringify(eventData),
          },
        ],
      });
    } catch (error) {
      console.error(...);
      // Don't throw - we don't want to break the main flow if Kafka fails
    }
  }
  \<close>
\<close>

record raw_producer =
  producerInstance :: "unit option"
  sent :: "kafka_message list"

definition raw_key :: "int \<Rightarrow> string \<Rightarrow> FourMemeEvent \<Rightarrow> jsval" where
  "raw_key now tp e = js_or (event_signature e) (Str (tp @ ''-'' @ int_string now))"

definition sendRawTokenEvent ::
  "bool \<Rightarrow> bool \<Rightarrow> int \<Rightarrow> string \<Rightarrow> FourMemeEvent \<Rightarrow> raw_producer \<Rightarrow> raw_producer" where
  "sendRawTokenEvent connect_ok send_succeeds now tp e p =
     (case producerInstance p of
        None \<Rightarrow>
          if connect_ok
          then (if send_succeeds
                then p\<lparr>producerInstance := Some (),
                       sent := sent p @ [\<lparr>topic = tp, key = raw_key now tp e, payload = e\<rparr>]\<rparr>
                else p\<lparr>producerInstance := Some ()\<rparr>)
          else p\<lparr>producerInstance := Some ()\<rparr>
      | Some producer \<Rightarrow>
          if send_succeeds
          then p\<lparr>sent := sent p @ [\<lparr>topic = tp, key = raw_key now tp e, payload = e\<rparr>]\<rparr>
          else p)"

text \<open>
  \<open>getRPCProvider().getProvider()\<close>: both calls raise, the first when \<open>initializeRPC\<close> has not
  run, the second when \<open>!this.provider || !this.isConnected\<close>.
\<close>

definition getProvider :: "monitor \<Rightarrow> js_error + nat" where
  "getProvider m =
     (case rpcProvider m of
        None \<Rightarrow> Inl ProviderNotInitialized
      | Some p \<Rightarrow>
          (case provider p of
             None \<Rightarrow> Inl ProviderNotConnected
           | Some h \<Rightarrow> if isConnected p then Inr h else Inl ProviderNotConnected))"

text \<open>
  The first two statements after the provider lookup, the same in every handler:
  \<^verbatim>\<open>
  const blockTimestamp = await blockTimeManager.getBlockTimestamp(provider, event.log.blockNumber);
  const blockTime = blockTimestamp ? Math.floor(blockTimestamp / 1000)
                                   : Math.floor(Date.now() / 1000);
  \<close>
\<close>

definition block_time_of :: "int option \<Rightarrow> int \<Rightarrow> int" where
  "block_time_of blockTimestamp now =
     (case blockTimestamp of
        Some ts \<Rightarrow> if ts \<noteq> 0 then ts div 1000 else now div 1000
      | None \<Rightarrow> now div 1000)"

definition resolve_block_time :: "world \<Rightarrow> raw_event \<Rightarrow> monitor \<Rightarrow> monitor \<times> int" where
  "resolve_block_time w ev m =
     (case getBlockTimestamp_default (getBlock w) (blockNumber ev) (blockTimeManager m) of
        (blockTimestamp, mgr, tr) \<Rightarrow>
          (m\<lparr>blockTimeManager := mgr, fetch_effects := fetch_effects m @ tr\<rparr>,
           block_time_of blockTimestamp (now_block_time w)))"

text \<open>
  A handler returns the module state it leaves behind and either the exception it raised or
  its record. \<open>handleTokenCreate\<close> (the \<open>contractVersion\<close> argument is not used by it):
  \<^verbatim>\<open>
  const tokenData: TokenCreateEvent = {
    chain_id: 0,
    token_mint: args.token || args[1],
    token_name: args.name || args[3],
    token_symbol: args.symbol || args[4],
    creator_wallet: args.creator || args[0],
    metadata_uri: 'N/A',
    initial_supply: formatToken(args.totalSupply || args[5]),
    block_time: blockTime,
    slot: event.log.blockNumber,
    signature: event.log.transactionHash,
    kafka_timestamp: generateKafkaTimestamp()
  };
  createdTokens.push({ token_mint: tokenData.token_mint, created_at: Date.now() });
  console.log(createLogMessage('TokenCreate', tokenData));
  await sendToKafka(TOKEN_RAW_CREATED, tokenData);
  return tokenData;
  \<close>
\<close>

definition handleTokenCreate ::
  "world \<Rightarrow> string \<Rightarrow> raw_event \<Rightarrow> monitor \<Rightarrow> monitor \<times> (js_error + TokenCreateEvent)" where
  "handleTokenCreate w contractVersion ev m =
     (case getProvider m of
        Inl e \<Rightarrow> (m, Inl e)
      | Inr h \<Rightarrow>
          (case resolve_block_time w ev m of
             (m1, blockTime) \<Rightarrow>
               (case formatToken (bigint_of_string w)
                       (js_or (arg (args ev) ''totalSupply'') (arg_at (args ev) 5)) of
                  Inl e \<Rightarrow> (m1, Inl e)
                | Inr supply \<Rightarrow>
                    let tokenData =
                          \<lparr>chain_id = 0,
                           token_mint = js_or (arg (args ev) ''token'') (arg_at (args ev) 1),
                           block_time = blockTime,
                           slot = blockNumber ev,
                           signature = transactionHash ev,
                           kafka_timestamp = generateKafkaTimestamp (now_kafka w),
                           token_name = js_or (arg (args ev) ''name'') (arg_at (args ev) 3),
                           token_symbol = js_or (arg (args ev) ''symbol'') (arg_at (args ev) 4),
                           creator_wallet = js_or (arg (args ev) ''creator'') (arg_at (args ev) 0),
                           metadata_uri = ''N/A'',
                           initial_supply = supply\<rparr>;
                        m2 = m1\<lparr>createdTokens := createdTokens m1 @
                               [\<lparr>created_token_mint = token_mint tokenData,
                                 created_at = now_created w\<rparr>]\<rparr>
                    in (sendToKafka w TOKEN_RAW_CREATED (Created tokenData) m2, Inr tokenData))))"

text \<open>
  The market capitalisation of \<open>handleTokenPurchase\<close>. The call of \<open>getTokenTotalSupply\<close> is
  commented out there and a constant stands in its place:
  \<^verbatim>\<open>
  let marketCapValue = 0;
  let price = 0;
  if (contractVersion === 'V2') {
    price = parseFloat(formatToken(args.price || args[2]));
    if (price > 0) {
      try {
        // const totalSupply = await getTokenTotalSupply(provider, args.token || args[0]);
        const totalSupply = 1000000000; // 1 billion tokens is default for four.meme and this saves API calls
        if (totalSupply) {
          const supply = parseFloat(formatToken(totalSupply));
          marketCapValue = calculateMarketCap(price, supply);
        }
      } catch (error) {
        console.warn(...);
      }
    }
  }
  \<close>
\<close>

definition purchase_market_cap ::
  "world \<Rightarrow> string \<Rightarrow> raw_event \<Rightarrow> monitor \<Rightarrow> monitor \<times> (js_error + rat option)" where
  "purchase_market_cap w contractVersion ev m =
     (if contractVersion = ''V2'' then
        (case formatToken (bigint_of_string w)
                (js_or (arg (args ev) ''price'') (arg_at (args ev) 2)) of
           Inl e \<Rightarrow> (m, Inl e)
         | Inr priceText \<Rightarrow>
             let price = parseFloat priceText
             in if js_positive price then
                  (let totalSupply = Big 1000000000
                   in if truthy totalSupply then
                        (case formatToken (bigint_of_string w) totalSupply of
                           Inl e \<Rightarrow> (m, Inr (Some 0))
                         | Inr supplyText \<Rightarrow>
                             (m, Inr (calculateMarketCap price (parseFloat supplyText))))
                      else (m, Inr (Some 0)))
                else (m, Inr (Some 0)))
      else (m, Inr (Some 0)))"

text \<open>
  The market capitalisation of \<open>handleTokenSale\<close>, which makes the auxiliary call.
  \<open>getTokenTotalSupply\<close> catches its own failures and returns \<open>null\<close>.
  \<^verbatim>\<open>
    if (price > 0) {
      try {
        const totalSupply = await getTokenTotalSupply(provider, args.token || args[0]);
        if (totalSupply) {
          const supply = parseFloat(formatToken(totalSupply));
          marketCapValue = calculateMarketCap(price, supply);
        }
      } catch (error) {
        console.warn(...);
      }
    }
  \<close>
\<close>

definition getTokenTotalSupply :: "world \<Rightarrow> jsval \<Rightarrow> monitor \<Rightarrow> monitor \<times> int option" where
  "getTokenTotalSupply w tokenAddress m =
     (m\<lparr>aux_calls := aux_calls m @ [TotalSupplyCall tokenAddress]\<rparr>, totalSupply w)"

definition sale_market_cap ::
  "world \<Rightarrow> string \<Rightarrow> raw_event \<Rightarrow> monitor \<Rightarrow> monitor \<times> (js_error + rat option)" where
  "sale_market_cap w contractVersion ev m =
     (if contractVersion = ''V2'' then
        (case formatToken (bigint_of_string w)
                (js_or (arg (args ev) ''price'') (arg_at (args ev) 2)) of
           Inl e \<Rightarrow> (m, Inl e)
         | Inr priceText \<Rightarrow>
             let price = parseFloat priceText
             in if js_positive price then
                  (case getTokenTotalSupply w
                          (js_or (arg (args ev) ''token'') (arg_at (args ev) 0)) m of
                     (m1, None) \<Rightarrow> (m1, Inr (Some 0))
                   | (m1, Some supplyValue) \<Rightarrow>
                       if truthy (Big supplyValue) then
                         (case formatToken (bigint_of_string w) (Big supplyValue) of
                            Inl e \<Rightarrow> (m1, Inr (Some 0))
                          | Inr supplyText \<Rightarrow>
                              (m1, Inr (calculateMarketCap price (parseFloat supplyText))))
                       else (m1, Inr (Some 0)))
                else (m, Inr (Some 0)))
      else (m, Inr (Some 0)))"

text \<open>
  The record that both trade handlers build after the market capitalisation, and its
  publication:
  \<^verbatim>\<open>
  const tradeData: TokenPurchaseEvent = {
    chain_id: 0,
    direction: 'buy',                       // 'sell' in handleTokenSale
    buyer_wallet: args.account || args[1],
    token_mint: args.token || args[0],
    token_amount: contractVersion === 'V2'
      ? formatToken(args.amount || args[3])
      : formatToken(args.tokenAmount || args[2]),
    token_decimals: 18,
    sol_amount: contractVersion === 'V2'
      ? formatBNB(args.cost || args[4])
      : formatBNB(args.etherAmount || args[3]),
    market_cap: marketCapValue,
    block_time: blockTime,
    slot: event.log.blockNumber,
    signature: event.log.transactionHash,
    kafka_timestamp: generateKafkaTimestamp()
  };
  \<close>
\<close>

definition tradeData ::
  "world \<Rightarrow> string \<Rightarrow> string \<Rightarrow> raw_event \<Rightarrow> int \<Rightarrow> rat option \<Rightarrow> js_error + TokenPurchaseEvent" where
  "tradeData w dir contractVersion ev blockTime marketCapValue =
     (case (if contractVersion = ''V2''
            then formatToken (bigint_of_string w)
                   (js_or (arg (args ev) ''amount'') (arg_at (args ev) 3))
            else formatToken (bigint_of_string w)
                   (js_or (arg (args ev) ''tokenAmount'') (arg_at (args ev) 2))) of
        Inl e \<Rightarrow> Inl e
      | Inr amount \<Rightarrow>
          (case (if contractVersion = ''V2''
                 then formatBNB (bigint_of_string w)
                        (js_or (arg (args ev) ''cost'') (arg_at (args ev) 4))
                 else formatBNB (bigint_of_string w)
                        (js_or (arg (args ev) ''etherAmount'') (arg_at (args ev) 3))) of
             Inl e \<Rightarrow> Inl e
           | Inr cost \<Rightarrow>
               Inr \<lparr>chain_id = 0,
                    token_mint = js_or (arg (args ev) ''token'') (arg_at (args ev) 0),
                    block_time = blockTime,
                    slot = blockNumber ev,
                    signature = transactionHash ev,
                    kafka_timestamp = generateKafkaTimestamp (now_kafka w),
                    direction = dir,
                    buyer_wallet = js_or (arg (args ev) ''account'') (arg_at (args ev) 1),
                    token_amount = amount,
                    token_decimals = 18,
                    sol_amount = cost,
                    market_cap = marketCapValue\<rparr>))"

definition handleTokenPurchase ::
  "world \<Rightarrow> string \<Rightarrow> raw_event \<Rightarrow> monitor \<Rightarrow> monitor \<times> (js_error + TokenPurchaseEvent)" where
  "handleTokenPurchase w contractVersion ev m =
     (case getProvider m of
        Inl e \<Rightarrow> (m, Inl e)
      | Inr h \<Rightarrow>
          (case resolve_block_time w ev m of
             (m1, blockTime) \<Rightarrow>
               (case purchase_market_cap w contractVersion ev m1 of
                  (m2, Inl e) \<Rightarrow> (m2, Inl e)
                | (m2, Inr marketCapValue) \<Rightarrow>
                    (case tradeData w ''buy'' contractVersion ev blockTime marketCapValue of
                       Inl e \<Rightarrow> (m2, Inl e)
                     | Inr r \<Rightarrow> (sendToKafka w TOKEN_RAW_TRADE (Purchased r) m2, Inr r)))))"

definition handleTokenSale ::
  "world \<Rightarrow> string \<Rightarrow> raw_event \<Rightarrow> monitor \<Rightarrow> monitor \<times> (js_error + TokenSaleEvent)" where
  "handleTokenSale w contractVersion ev m =
     (case getProvider m of
        Inl e \<Rightarrow> (m, Inl e)
      | Inr h \<Rightarrow>
          (case resolve_block_time w ev m of
             (m1, blockTime) \<Rightarrow>
               (case sale_market_cap w contractVersion ev m1 of
                  (m2, Inl e) \<Rightarrow> (m2, Inl e)
                | (m2, Inr marketCapValue) \<Rightarrow>
                    (case tradeData w ''sell'' contractVersion ev blockTime marketCapValue of
                       Inl e \<Rightarrow> (m2, Inl e)
                     | Inr r \<Rightarrow> (sendToKafka w TOKEN_RAW_TRADE (Sold r) m2, Inr r)))))"

text \<open>
  \<open>handleLiquidityAdded\<close>: the two reads of the token contract are made together and a
  failure of either leaves both fields at \<open>'N/A'\<close>.
  \<^verbatim>\<open>
  const tokenAddress = args.base || args[0];
  let migratorWallet = 'N/A';
  let liquidityPool = 'N/A';
  try {
    const tokenContract = new ethers.Contract(tokenAddress, [...], provider);
    const [founderAddress, pairAddress] = await Promise.all([
      tokenContract.founder!(),
      tokenContract.pair!()
    ]);
    migratorWallet = founderAddress;
    liquidityPool = pairAddress;
  } catch (error) {
    console.warn(...);
  }
  const liquidityData: CompleteFourMemeMigrationEvent = {
    chain_id: 0,
    token_mint: tokenAddress,
    migrator_wallet: migratorWallet,
    liquidity_pool: liquidityPool,
    migration_fee: formatBNB(args.funds || args[3]),
    block_time: blockTime,
    slot: event.log.blockNumber,
    signature: event.log.transactionHash,
    kafka_timestamp: generateKafkaTimestamp()
  };
  await sendToKafka(TOKEN_RAW_MIGRATED, liquidityData);
  return liquidityData;
  \<close>
\<close>

definition handleLiquidityAdded ::
  "world \<Rightarrow> string \<Rightarrow> raw_event \<Rightarrow> monitor
     \<Rightarrow> monitor \<times> (js_error + CompleteFourMemeMigrationEvent)" where
  "handleLiquidityAdded w contractVersion ev m =
     (case getProvider m of
        Inl e \<Rightarrow> (m, Inl e)
      | Inr h \<Rightarrow>
          (case resolve_block_time w ev m of
             (m1, blockTime) \<Rightarrow>
               let tokenAddress = js_or (arg (args ev) ''base'') (arg_at (args ev) 0);
                   m2 = m1\<lparr>aux_calls := aux_calls m1 @ [FounderPairCall tokenAddress]\<rparr>;
                   (migratorWallet, liquidityPool) =
                     (case founder_pair w of
                        None \<Rightarrow> (Str ''N/A'', Str ''N/A'')
                      | Some (founderAddress, pairAddress) \<Rightarrow> (founderAddress, pairAddress))
               in (case formatBNB (bigint_of_string w)
                          (js_or (arg (args ev) ''funds'') (arg_at (args ev) 3)) of
                     Inl e \<Rightarrow> (m2, Inl e)
                   | Inr fee \<Rightarrow>
                       let liquidityData =
                             \<lparr>chain_id = 0,
                              token_mint = tokenAddress,
                              block_time = blockTime,
                              slot = blockNumber ev,
                              signature = transactionHash ev,
                              kafka_timestamp = generateKafkaTimestamp (now_kafka w),
                              migrator_wallet = migratorWallet,
                              liquidity_pool = liquidityPool,
                              migration_fee = fee\<rparr>
                       in (sendToKafka w TOKEN_RAW_MIGRATED (Migrated liquidityData) m2,
                           Inr liquidityData))))"

text \<open>
  The listeners of \<open>setupEventListeners\<close>: each runs its handler inside \<open>try\<close>/\<open>catch\<close>, logs an
  exception and discards the record. \<open>MONITOR_TOKEN_CREATE\<close>, \<open>MONITOR_TOKEN_PURCHASE\<close>,
  \<open>MONITOR_TOKEN_SALE\<close> and \<open>MONITOR_LIQUIDITY_ADDED\<close> are \<open>true\<close> and \<open>MONITOR_TRADE_STOP\<close> is
  \<open>false\<close> in \<open>config/config.ts\<close>; the \<open>LiquidityAdded\<close> listener is installed for \<open>'V2'\<close> only.
\<close>

datatype event_kind = TokenCreate | TokenPurchase | TokenSale | LiquidityAdded

definition listener :: "world \<Rightarrow> event_kind \<Rightarrow> string \<Rightarrow> raw_event \<Rightarrow> monitor \<Rightarrow> monitor" where
  "listener w kind contractVersion ev m =
     (case kind of
        TokenCreate \<Rightarrow> fst (handleTokenCreate w contractVersion ev m)
      | TokenPurchase \<Rightarrow> fst (handleTokenPurchase w contractVersion ev m)
      | TokenSale \<Rightarrow> fst (handleTokenSale w contractVersion ev m)
      | LiquidityAdded \<Rightarrow>
          if contractVersion = ''V2'' then fst (handleLiquidityAdded w contractVersion ev m)
          else m)"

text \<open>The monitor's life after start-up: the logs that arrive, each with its world.\<close>

fun deliver :: "(world \<times> event_kind \<times> string \<times> raw_event) list \<Rightarrow> monitor \<Rightarrow> monitor" where
  "deliver [] m = m"
| "deliver ((w, kind, contractVersion, ev) # rest) m =
     deliver rest (listener w kind contractVersion ev m)"

section \<open>A concrete scenario\<close>

text \<open>
  The monitor after a successful start (connected, producer connected) with the block
  cache holding block 34000000 at 1700000000000 ms; a world in which nothing needs to be
  fetched; the \<open>TokenCreate\<close> log of the end-to-end scenario, with named and positional
  arguments; and a \<open>V2\<close> trade log with price 1.
\<close>

definition example_monitor :: monitor where
  "example_monitor =
     \<lparr>rpcProvider = Some connected_state,
      blockTimeManager = \<lparr>blockTimestamps = [(34000000, 1700000000000)], maxCacheSize = 100\<rparr>,
      createdTokens = [],
      kafkaProducer = Some (),
      bus = [],
      aux_calls = [],
      fetch_effects = []\<rparr>"

definition example_world :: world where
  "example_world =
     \<lparr>getBlock = (\<lambda>k. NoBlock),
      totalSupply = Some 1000000000000000000000000000,
      founder_pair = None,
      send_ok = True,
      now_block_time = 1700000005000,
      now_kafka = 1700000005000,
      now_created = 1700000005000,
      random_text = ''0.5'',
      bigint_of_string = (\<lambda>s. None)\<rparr>"

definition example_create_event :: raw_event where
  "example_create_event =
     \<lparr>args = \<lparr>named = [(''creator'', Str ''0xAAAAAAAAAAAAAAAAAAAAAAAAAAAAAAAAAAAAAAAA''),
                        (''token'', Str ''0xBBBBBBBBBBBBBBBBBBBBBBBBBBBBBBBBBBBBBBBB''),
                        (''requestId'', Big 1),
                        (''name'', Str ''Pepe''),
                        (''symbol'', Str ''PEPE''),
                        (''totalSupply'', Big 1000000000000000000000000)],
              positional = [Str ''0xAAAAAAAAAAAAAAAAAAAAAAAAAAAAAAAAAAAAAAAA'',
                            Str ''0xBBBBBBBBBBBBBBBBBBBBBBBBBBBBBBBBBBBBBBBB'',
                            Big 1, Str ''Pepe'', Str ''PEPE'',
                            Big 1000000000000000000000000]\<rparr>,
      blockNumber = 34000000,
      transactionHash = Str ''0x5151515151515151515151515151515151515151515151515151515151515151''\<rparr>"

definition example_trade_event :: raw_event where
  "example_trade_event =
     \<lparr>args = \<lparr>named = [(''token'', Str ''0xBBBBBBBBBBBBBBBBBBBBBBBBBBBBBBBBBBBBBBBB''),
                        (''account'', Str ''0xAAAAAAAAAAAAAAAAAAAAAAAAAAAAAAAAAAAAAAAA''),
                        (''price'', Big 1000000000000000000),
                        (''amount'', Big 5000000000000000000),
                        (''cost'', Big 5000000000000000000)],
              positional = [Str ''0xBBBBBBBBBBBBBBBBBBBBBBBBBBBBBBBBBBBBBBBB'',
                            Str ''0xAAAAAAAAAAAAAAAAAAAAAAAAAAAAAAAAAAAAAAAA'',
                            Big 1000000000000000000, Big 5000000000000000000,
                            Big 5000000000000000000]\<rparr>,
      blockNumber = 34000000,
      transactionHash = Str ''0x5151515151515151515151515151515151515151515151515151515151515151''\<rparr>"

text \<open>The same trade log with price 0.\<close>

definition example_zero_price_event :: raw_event where
  "example_zero_price_event =
     \<lparr>args = \<lparr>named = [(''token'', Str ''0xBBBBBBBBBBBBBBBBBBBBBBBBBBBBBBBBBBBBBBBB''),
                        (''account'', Str ''0xAAAAAAAAAAAAAAAAAAAAAAAAAAAAAAAAAAAAAAAA''),
                        (''price'', Big 0),
                        (''amount'', Big 5000000000000000000),
                        (''cost'', Big 5000000000000000000)],
              positional = [Str ''0xBBBBBBBBBBBBBBBBBBBBBBBBBBBBBBBBBBBBBBBB'',
                            Str ''0xAAAAAAAAAAAAAAAAAAAAAAAAAAAAAAAAAAAAAAAA'',
                            Big 0, Big 5000000000000000000,
                            Big 5000000000000000000]\<rparr>,
      blockNumber = 34000000,
      transactionHash = Str ''0x5151515151515151515151515151515151515151515151515151515151515151''\<rparr>"

text \<open>The record that the scenario's \<open>TokenCreate\<close> log is turned into in that world.\<close>

definition example_create_record :: TokenCreateEvent where
  "example_create_record =
     \<lparr>chain_id = 0,
      token_mint = Str ''0xBBBBBBBBBBBBBBBBBBBBBBBBBBBBBBBBBBBBBBBB'',
      block_time = 1700000000,
      slot = 34000000,
      signature = Str ''0x5151515151515151515151515151515151515151515151515151515151515151'',
      kafka_timestamp = ''2023-11-14T22:13:25.000Z'',
      token_name = Str ''Pepe'',
      token_symbol = Str ''PEPE'',
      creator_wallet = Str ''0xAAAAAAAAAAAAAAAAAAAAAAAAAAAAAAAAAAAAAAAA'',
      metadata_uri = ''N/A'',
      initial_supply = ''1000000.0''\<rparr>"

text \<open>
  Two worlds in which the auxiliary contract calls are answered alike (and the library is
  the same library); the clocks, the provider's block answers and the bus may differ.
\<close>

definition same_answers :: "world \<Rightarrow> world \<Rightarrow> bool" where
  "same_answers w1 w2 =
     (bigint_of_string w1 = bigint_of_string w2
      \<and> totalSupply w1 = totalSupply w2
      \<and> founder_pair w1 = founder_pair w2)"

text \<open>
  Vocabulary for comparing two decodes of a log: the handler for each kind of log, with its
  record as a \<open>FourMemeEvent\<close>; a record with its \<open>kafka_timestamp\<close> blanked, and with both
  \<open>kafka_timestamp\<close> and \<open>block_time\<close> blanked; the \<open>block_time\<close> of a record; what the
  provider lookup of a handler gives, apart from the session handle (an exception or a
  session); and whether a looked-up block timestamp is one that the handlers use (the test
  \<open>blockTimestamp ? ... : ...\<close>).
\<close>

definition handle_event ::
  "world \<Rightarrow> event_kind \<Rightarrow> string \<Rightarrow> raw_event \<Rightarrow> monitor
     \<Rightarrow> monitor \<times> (js_error + FourMemeEvent)" where
  "handle_event w kind contractVersion ev m =
     (case kind of
        TokenCreate \<Rightarrow> map_prod id (map_sum id Created) (handleTokenCreate w contractVersion ev m)
      | TokenPurchase \<Rightarrow>
          map_prod id (map_sum id Purchased) (handleTokenPurchase w contractVersion ev m)
      | TokenSale \<Rightarrow> map_prod id (map_sum id Sold) (handleTokenSale w contractVersion ev m)
      | LiquidityAdded \<Rightarrow>
          map_prod id (map_sum id Migrated) (handleLiquidityAdded w contractVersion ev m))"

definition without_kafka_timestamp :: "FourMemeEvent \<Rightarrow> FourMemeEvent" where
  "without_kafka_timestamp e =
     (case e of
        Created r \<Rightarrow> Created (r\<lparr>kafka_timestamp := []\<rparr>)
      | Purchased r \<Rightarrow> Purchased (r\<lparr>kafka_timestamp := []\<rparr>)
      | Sold r \<Rightarrow> Sold (r\<lparr>kafka_timestamp := []\<rparr>)
      | Migrated r \<Rightarrow> Migrated (r\<lparr>kafka_timestamp := []\<rparr>))"

definition without_times :: "FourMemeEvent \<Rightarrow> FourMemeEvent" where
  "without_times e =
     (case e of
        Created r \<Rightarrow> Created (r\<lparr>block_time := 0, kafka_timestamp := []\<rparr>)
      | Purchased r \<Rightarrow> Purchased (r\<lparr>block_time := 0, kafka_timestamp := []\<rparr>)
      | Sold r \<Rightarrow> Sold (r\<lparr>block_time := 0, kafka_timestamp := []\<rparr>)
      | Migrated r \<Rightarrow> Migrated (r\<lparr>block_time := 0, kafka_timestamp := []\<rparr>))"

definition event_block_time :: "FourMemeEvent \<Rightarrow> int" where
  "event_block_time e =
     (case e of Created r \<Rightarrow> block_time r | Purchased r \<Rightarrow> block_time r
      | Sold r \<Rightarrow> block_time r | Migrated r \<Rightarrow> block_time r)"

definition connection_status :: "monitor \<Rightarrow> js_error + unit" where
  "connection_status m = map_sum id (\<lambda>h. ()) (getProvider m)"

definition timestamp_resolved :: "int option \<Rightarrow> bool" where
  "timestamp_resolved blockTimestamp =
     (case blockTimestamp of Some ts \<Rightarrow> ts \<noteq> 0 | None \<Rightarrow> False)"

text \<open>
  The scenario's monitor before any block has been cached, and a world in which the
  provider knows the block of the scenario's log, with timestamp 1700000000 s.
\<close>

definition fresh_monitor :: monitor where
  "fresh_monitor = example_monitor\<lparr>blockTimeManager := new_BlockTimeManager\<rparr>"

definition fetching_world :: world where
  "fetching_world = example_world\<lparr>getBlock := (\<lambda>k. Block 1700000000)\<rparr>"

section \<open>Properties of the backoff policy\<close>

lemma backoff_formula:
  "1 \<le> attempt \<Longrightarrow>
   calculateBackoffDelay attempt b m = min (b * 2 ^ nat (attempt - 1)) m"
  by (simp add: calculateBackoffDelay_def power_int_def)

lemma backoff_le_cap: "calculateBackoffDelay attempt b m \<le> m"
  by (simp add: calculateBackoffDelay_def)

lemma backoff_mono:
  assumes "0 \<le> b" and "a \<le> a'"
  shows "calculateBackoffDelay a b m \<le> calculateBackoffDelay a' b m"
proof -
  have "(2::rat) powi (a - 1) \<le> 2 powi (a' - 1)"
    using assms(2) by (intro power_int_increasing) simp_all
  then have "b * (2 powi (a - 1)) \<le> b * (2 powi (a' - 1))"
    using assms(1) by (rule mult_left_mono)
  then show ?thesis
    unfolding calculateBackoffDelay_def by (simp add: min_le_iff_disj)
qed

lemma backoff_const_after_cap:
  assumes "0 \<le> b" and "a \<le> a'" and "calculateBackoffDelay a b m = m"
  shows "calculateBackoffDelay a' b m = m"
proof -
  have "m \<le> calculateBackoffDelay a' b m"
    using backoff_mono [OF assms(1,2), of m] assms(3) by simp
  with backoff_le_cap [of a' b m] show ?thesis by simp
qed

text \<open>
  C6. For every positive integer attempt the delay is \<open>min (base * 2^(attempt-1)) max\<close>
  (with base 1000 and cap 30000 when the defaults are taken); the function is a total
  function of its three arguments with no error result; it never exceeds the cap; and for a
  non-negative base it is non-decreasing in the attempt number and stays at the cap once it
  has reached it.
\<close>

theorem C6_backoff_policy:
  "(1 \<le> a \<longrightarrow> calculateBackoffDelay a b m = min (b * 2 ^ nat (a - 1)) m)
   \<and> (1 \<le> a \<longrightarrow> calculateBackoffDelay_default a = min (1000 * 2 ^ nat (a - 1)) 30000)
   \<and> calculateBackoffDelay a b m \<le> m
   \<and> (0 \<le> b \<and> 1 \<le> a \<and> a \<le> a' \<longrightarrow>
        calculateBackoffDelay a b m \<le> calculateBackoffDelay a' b m)
   \<and> (0 \<le> b \<and> 1 \<le> a \<and> a \<le> a' \<and> calculateBackoffDelay a b m = m \<longrightarrow>
        calculateBackoffDelay a' b m = m)"
  using backoff_formula [of a b m] backoff_formula [of a 1000 30000]
    backoff_le_cap [of a b m] backoff_mono [of b a a' m]
    backoff_const_after_cap [of b a a' m]
  unfolding calculateBackoffDelay_default_def by blast

theorem C6_backoff_policy_witness:
  "calculateBackoffDelay 1 1000 30000 = 1000
   \<and> calculateBackoffDelay_default 5 = 16000
   \<and> calculateBackoffDelay 5 1000 30000 \<le> calculateBackoffDelay 6 1000 30000
   \<and> calculateBackoffDelay 6 1000 30000 = 30000
   \<and> calculateBackoffDelay 9 1000 30000 = 30000"
proof -
  have six: "calculateBackoffDelay 6 1000 30000 = 30000"
    using C6_backoff_policy [of 6 1000 30000 6] by simp
  show ?thesis
    using C6_backoff_policy [of 1 1000 30000 1] C6_backoff_policy [of 5 1000 30000 6]
      C6_backoff_policy [of 6 1000 30000 9] six
    by simp
qed

section \<open>Properties of the block timestamp cache\<close>

lemma update_fresh: "k \<notin> fst ` set al \<Longrightarrow> AList.update k v al = al @ [(k, v)]"
  by (induction al) auto

lemma delete_hd:
  "distinct (map fst al) \<Longrightarrow> al \<noteq> [] \<Longrightarrow> AList.delete (fst (hd al)) al = tl al"
proof (cases al)
  case Nil
  assume "al \<noteq> []" with Nil show ?thesis by simp
next
  case (Cons p ps)
  assume "distinct (map fst al)"
  with Cons have "fst p \<notin> fst ` set ps" by simp
  then show ?thesis using Cons by (cases p) simp
qed

lemma Min_sorted_hd:
  assumes "sorted_wrt (<) (xs :: int list)" and "xs \<noteq> []"
  shows "Min (set xs) = hd xs"
proof (cases xs)
  case Nil
  with assms(2) show ?thesis by simp
next
  case (Cons a as)
  with assms(1) have "\<forall>y\<in>set as. a < y" by simp
  then have "Min (set (a # as)) = a"
    by (intro Min_eqI) auto
  with Cons show ?thesis by simp
qed

lemma tl_drop_snoc: "n \<le> length xs \<Longrightarrow> tl (drop n xs @ [y]) = drop (Suc n) (xs @ [y])"
proof (cases "n = length xs")
  case True
  then show ?thesis by simp
next
  case False
  assume "n \<le> length xs"
  with False have "drop n xs \<noteq> []" and "Suc n - length xs = 0" by simp_all
  then show ?thesis by (simp add: drop_Suc drop_tl)
qed

lemma size_keys: "getCacheSize mgr = length (cache_keys mgr)"
  by (simp add: getCacheSize_def cache_keys_def)

lemma cache_set_keys:
  "cache_keys (cache_set k v mgr) =
     (if cache_has mgr k then cache_keys mgr else cache_keys mgr @ [k])"
  by (simp add: cache_set_def cache_keys_def cache_has_def AList.update_keys)

lemma cache_set_cap: "maxCacheSize (cache_set k v mgr) = maxCacheSize mgr"
  by (simp add: cache_set_def)

lemma cache_cleanup_cap: "maxCacheSize (cache_cleanup mgr) = maxCacheSize mgr"
  by (simp add: cache_cleanup_def Let_def)

lemma cache_cleanup_under:
  "getCacheSize mgr \<le> maxCacheSize mgr \<Longrightarrow> cache_cleanup mgr = mgr"
  by (simp add: cache_cleanup_def)

lemma cache_cleanup_over_keys:
  "getCacheSize mgr > maxCacheSize mgr \<Longrightarrow>
   cache_keys (cache_cleanup mgr) = removeAll (Min (set (cache_keys mgr))) (cache_keys mgr)"
  by (simp add: cache_cleanup_def cache_keys_def AList.delete_keys)

lemma cache_cleanup_over_size:
  assumes "distinct (cache_keys mgr)" and "getCacheSize mgr > maxCacheSize mgr"
  shows "Suc (getCacheSize (cache_cleanup mgr)) = getCacheSize mgr"
proof -
  from assms(2) have "cache_keys mgr \<noteq> []" by (auto simp: size_keys)
  then have "Min (set (cache_keys mgr)) \<in> set (cache_keys mgr)"
    by (intro Min_in) auto
  with assms(1) have "Suc (length (removeAll (Min (set (cache_keys mgr))) (cache_keys mgr)))
      = length (cache_keys mgr)"
    by (simp add: distinct_remove1_removeAll [symmetric] length_remove1)
       (cases "cache_keys mgr", auto)
  with assms(2) show ?thesis by (simp add: size_keys cache_cleanup_over_keys)
qed

lemma cache_cleanup_distinct:
  "distinct (cache_keys mgr) \<Longrightarrow> distinct (cache_keys (cache_cleanup mgr))"
  by (simp add: cache_cleanup_def cache_keys_def AList.distinct_delete Let_def)

lemma cache_store_ok: 
  assumes ok: "cache_ok mgr" shows "cache_ok (cache_store k v mgr)"
proof -
  let ?m = "cache_set k v mgr"
  have d: "distinct (cache_keys ?m)"
    using ok by (auto simp: cache_ok_def cache_set_keys cache_has_def)
  have sz: "getCacheSize ?m \<le> Suc (maxCacheSize mgr)"
    using ok by (simp add: cache_ok_def size_keys cache_set_keys)
  show ?thesis
  proof (cases "getCacheSize ?m > maxCacheSize ?m")
    case True
    from cache_cleanup_over_size [OF d True] sz cache_cleanup_distinct [OF d]
    show ?thesis
      by (simp add: cache_ok_def cache_store_def cache_cleanup_cap cache_set_cap)
  next
    case False
    then show ?thesis using d
      by (simp add: cache_ok_def cache_store_def cache_cleanup_under)
  qed
qed

lemma store_all_ok: "cache_ok mgr \<Longrightarrow> cache_ok (store_all kvs mgr)"
  unfolding store_all_def
  by (induction kvs arbitrary: mgr) (auto simp: cache_store_ok)

lemma fetch_loop_ok:
  "cache_ok mgr \<Longrightarrow> cache_ok (fst (snd (fetch_loop prov b R a mgr)))"
proof (induction prov b R a mgr rule: fetch_loop.induct)
  case (1 prov blockNumber maxRetries attempt mgr)
  show ?case
    apply (subst fetch_loop.simps)
    using 1 by (auto simp: after_def Let_def cache_store_ok split: getBlock_result.splits prod.splits)
qed

lemma getBlockTimestamp_ok:
  "cache_ok mgr \<Longrightarrow> cache_ok (fst (snd (getBlockTimestamp prov b R mgr)))"
  by (simp add: getBlockTimestamp_def fetch_loop_ok)

lemma store_all_snoc: "store_all (xs @ [(k, v)]) mgr = cache_store k v (store_all xs mgr)"
  by (simp add: store_all_def)

lemma store_all_cap: "maxCacheSize (store_all kvs mgr) = maxCacheSize mgr"
  by (induction kvs rule: rev_induct)
     (auto simp: store_all_snoc cache_store_def cache_cleanup_cap cache_set_cap store_all_def)

lemma store_sorted:
  assumes "sorted_wrt (<) (map fst kvs)"
  shows "blockTimestamps (store_all kvs \<lparr>blockTimestamps = [], maxCacheSize = C\<rparr>)
           = drop (length kvs - C) kvs"
  using assms
proof (induction kvs rule: rev_induct)
  case Nil
  then show ?case by (simp add: store_all_def)
next
  case (snoc x xs)
  obtain k v where x: "x = (k, v)" by (cases x)
  let ?m = "store_all xs \<lparr>blockTimestamps = [], maxCacheSize = C\<rparr>"
  let ?old = "drop (length xs - C) xs"
  let ?new = "cache_set k v ?m"
  from snoc.prems have sx: "sorted_wrt (<) (map fst xs)" and gt: "\<forall>y\<in>set xs. fst y < k"
    by (auto simp: sorted_wrt_append x)
  from snoc.IH [OF sx] have bt: "blockTimestamps ?m = ?old" .
  have cap: "maxCacheSize ?new = C" by (simp add: cache_set_cap store_all_cap)
  have fresh: "k \<notin> fst ` set ?old" using gt by (auto dest: in_set_dropD)
  have set_eq: "blockTimestamps ?new = ?old @ [(k, v)]"
    by (simp add: cache_set_def bt update_fresh [OF fresh])
  have "sorted_wrt (<) (drop (length xs - C) (map fst (xs @ [x])))"
    using snoc.prems by (rule sorted_wrt_drop)
  then have srt: "sorted_wrt (<) (map fst (?old @ [(k, v)]))"
    by (simp add: drop_map x)
  then have dist: "distinct (map fst (?old @ [(k, v)]))"
    unfolding strict_sorted_iff by blast
  show ?case
  proof (cases "length xs < C")
    case True
    then have "getCacheSize ?new \<le> maxCacheSize ?new"
      by (simp add: getCacheSize_def set_eq cap)
    then show ?thesis using True
      by (simp add: store_all_snoc x cache_store_def cache_cleanup_under set_eq)
  next
    case False
    then have over: "getCacheSize ?new > maxCacheSize ?new"
      by (simp add: getCacheSize_def set_eq cap)
    have ne: "?old @ [(k, v)] \<noteq> []" by simp
    have "Min (set (map fst (?old @ [(k, v)]))) = hd (map fst (?old @ [(k, v)]))"
      by (rule Min_sorted_hd [OF srt]) simp
    also have "\<dots> = fst (hd (?old @ [(k, v)]))"
      by (rule hd_map [OF ne])
    finally have "Min (set (cache_keys ?new)) = fst (hd (?old @ [(k, v)]))"
      unfolding cache_keys_def set_eq .
    then have "blockTimestamps (cache_cleanup ?new) = tl (?old @ [(k, v)])"
      using over delete_hd [OF dist ne] by (simp add: cache_cleanup_def set_eq)
    also have "\<dots> = drop (Suc (length xs - C)) (xs @ [(k, v)])"
      using False by (intro tl_drop_snoc) simp
    finally show ?thesis using False
      by (simp add: store_all_snoc x cache_store_def Suc_diff_le)
  qed
qed


lemma fetch_loop_count:
  "int (fetch_count (snd (snd (fetch_loop prov b R a mgr)))) \<le> max 0 (R + 1 - a)"
proof (induction prov b R a mgr rule: fetch_loop.induct)
  case (1 prov blockNumber maxRetries attempt mgr)
  show ?case
    apply (subst fetch_loop.simps)
    using 1 by (auto simp: after_def Let_def fetch_count_def split: getBlock_result.splits prod.splits)
qed

lemma fetch_loop_all_fail:
  "(\<forall>k. a \<le> k \<and> k \<le> R \<longrightarrow> is_failure (prov k)) \<Longrightarrow>
   fetch_loop prov b R a mgr =
     (None, mgr, concat (map (\<lambda>k. Fetch b #
         (if k < R then [Sleep (calculateBackoffDelay_default k)] else [])) [a..R]))"
proof (induction prov b R a mgr rule: fetch_loop.induct)
  case (1 prov blockNumber maxRetries attempt mgr)
  show ?case
  proof (cases "attempt \<le> maxRetries")
    case False
    then show ?thesis by (subst fetch_loop.simps) simp
  next
    case True
    then have f: "is_failure (prov attempt)" using "1.prems" by simp
    have rest: "\<forall>k. attempt + 1 \<le> k \<and> k \<le> maxRetries \<longrightarrow> is_failure (prov k)"
      using "1.prems" by simp
    have up: "[attempt..maxRetries] = attempt # [attempt + 1..maxRetries]"
      using True by (simp add: upto_rec1)
    show ?thesis
    proof (cases "attempt < maxRetries")
      case lt: True
      from f show ?thesis
        apply (subst fetch_loop.simps)
        using True lt "1.IH"(1) [OF True _ lt rest] "1.IH"(2) [OF True _ lt rest]
        by (auto simp: is_failure_def after_def up split: getBlock_result.splits)
    next
      case False
      with True have eq: "attempt = maxRetries" by simp
      from f show ?thesis
        apply (subst fetch_loop.simps)
        by (auto simp: is_failure_def eq split: getBlock_result.splits)
    qed
  qed
qed

lemma fetch_loop_success:
  "a \<le> j \<Longrightarrow> j \<le> R \<Longrightarrow> prov j = Block ts \<Longrightarrow>
   (\<forall>k. a \<le> k \<and> k < j \<longrightarrow> is_failure (prov k)) \<Longrightarrow>
   fetch_loop prov b R a mgr =
     (Some (ts * 1000), cache_store b (ts * 1000) mgr,
      concat (map (\<lambda>k. [Fetch b, Sleep (calculateBackoffDelay_default k)]) [a..j - 1])
        @ [Fetch b])"
proof (induction prov b R a mgr rule: fetch_loop.induct)
  case (1 prov blockNumber maxRetries attempt mgr)
  from "1.prems" have le: "attempt \<le> maxRetries" by simp
  show ?case
  proof (cases "attempt = j")
    case True
    then show ?thesis
      apply (subst fetch_loop.simps)
      using le "1.prems"(3) by (simp add: Let_def)
  next
    case False
    with "1.prems" have lt: "attempt < j" and ltR: "attempt < maxRetries" by simp_all
    then have f: "is_failure (prov attempt)" using "1.prems" by simp
    have rest: "\<forall>k. attempt + 1 \<le> k \<and> k < j \<longrightarrow> is_failure (prov k)"
      using "1.prems" by simp
    have up: "[attempt..j - 1] = attempt # [attempt + 1..j - 1]"
      using lt by (simp add: upto_rec1)
    have a1: "attempt + 1 \<le> j" using lt by simp
    from f show ?thesis
      apply (subst fetch_loop.simps)
      using le ltR "1.IH"(1) [OF le _ ltR a1 "1.prems"(2,3) rest]
         "1.IH"(2) [OF le _ ltR a1 "1.prems"(2,3) rest]
      by (auto simp: is_failure_def after_def up split: getBlock_result.splits)
  qed
qed

lemma store_sorted_keys:
  assumes "sorted_wrt (<) (map fst kvs)" and "C < length kvs"
  shows "\<forall>k\<in>set (take (length kvs - C) (map fst kvs)).
           \<not> cache_has (store_all kvs \<lparr>blockTimestamps = [], maxCacheSize = C\<rparr>) k"
proof -
  let ?n = "length kvs - C"
  let ?ks = "map fst kvs"
  have "distinct ?ks" using assms(1) unfolding strict_sorted_iff by blast
  then have "distinct (take ?n ?ks @ drop ?n ?ks)" by simp
  then have "set (take ?n ?ks) \<inter> set (drop ?n ?ks) = {}"
    unfolding distinct_append by blast
  then show ?thesis
    by (auto simp: cache_has_def cache_keys_def store_sorted [OF assms(1)] drop_map)
qed

text \<open>
  C1. From any state satisfying the capacity bound (the initial, empty cache with capacity
  100 is one), every run of successful insertions and every call of \<open>getBlockTimestamp\<close> ends
  in a state whose size is at most the capacity. Whenever the size after \<open>set\<close> exceeds the
  capacity, the cleanup deletes exactly one entry, the one whose key is the minimum of the
  keys, and otherwise deletes nothing. Hence, inserting entries for strictly increasing
  block numbers \<open>b1 < ... < bK\<close> into an empty cache of capacity \<open>C\<close> leaves exactly the last
  \<open>C\<close> of them: for \<open>K > C\<close> the \<open>K - C\<close> smallest are absent and the \<open>C\<close> largest present.
\<close>

theorem C1_cache_capacity:
  "(cache_ok mgr \<longrightarrow>
      cache_ok (store_all kvs mgr) \<and> getCacheSize (store_all kvs mgr) \<le> maxCacheSize mgr)
   \<and> (cache_ok mgr \<longrightarrow>
      cache_ok (fst (snd (getBlockTimestamp prov b R mgr))))
   \<and> (cache_ok mgr \<and> getCacheSize (cache_set k v mgr) > maxCacheSize mgr \<longrightarrow>
      blockTimestamps (cache_store k v mgr) =
        AList.delete (Min (set (cache_keys (cache_set k v mgr))))
          (blockTimestamps (cache_set k v mgr))
      \<and> Suc (getCacheSize (cache_store k v mgr)) = getCacheSize (cache_set k v mgr)
      \<and> getCacheSize (cache_store k v mgr) = maxCacheSize mgr)
   \<and> (getCacheSize (cache_set k v mgr) \<le> maxCacheSize mgr \<longrightarrow>
      cache_store k v mgr = cache_set k v mgr)
   \<and> (sorted_wrt (<) (map fst kvs) \<longrightarrow>
      blockTimestamps (store_all kvs \<lparr>blockTimestamps = [], maxCacheSize = C\<rparr>)
        = drop (length kvs - C) kvs)
   \<and> (sorted_wrt (<) (map fst kvs) \<and> C < length kvs \<longrightarrow>
      getCacheSize (store_all kvs \<lparr>blockTimestamps = [], maxCacheSize = C\<rparr>) = C
      \<and> (\<forall>k\<in>set (take (length kvs - C) (map fst kvs)).
           \<not> cache_has (store_all kvs \<lparr>blockTimestamps = [], maxCacheSize = C\<rparr>) k)
      \<and> (\<forall>k\<in>set (drop (length kvs - C) (map fst kvs)).
           cache_has (store_all kvs \<lparr>blockTimestamps = [], maxCacheSize = C\<rparr>) k))
   \<and> cache_ok new_BlockTimeManager \<and> maxCacheSize new_BlockTimeManager = 100"
proof -
  have inv: "cache_ok mgr \<longrightarrow>
      cache_ok (store_all kvs mgr) \<and> getCacheSize (store_all kvs mgr) \<le> maxCacheSize mgr"
    using store_all_ok [of mgr kvs] store_all_cap [of kvs mgr] by (simp add: cache_ok_def)
  have fetch: "cache_ok mgr \<longrightarrow> cache_ok (fst (snd (getBlockTimestamp prov b R mgr)))"
    by (simp add: getBlockTimestamp_ok)
  have over: "cache_ok mgr \<and> getCacheSize (cache_set k v mgr) > maxCacheSize mgr \<longrightarrow>
      blockTimestamps (cache_store k v mgr) =
        AList.delete (Min (set (cache_keys (cache_set k v mgr))))
          (blockTimestamps (cache_set k v mgr))
      \<and> Suc (getCacheSize (cache_store k v mgr)) = getCacheSize (cache_set k v mgr)
      \<and> getCacheSize (cache_store k v mgr) = maxCacheSize mgr"
  proof (intro impI, elim conjE)
    assume ok: "cache_ok mgr"
      and gt: "getCacheSize (cache_set k v mgr) > maxCacheSize mgr"
    have d: "distinct (cache_keys (cache_set k v mgr))"
      using ok by (auto simp: cache_ok_def cache_set_keys cache_has_def)
    have gt': "getCacheSize (cache_set k v mgr) > maxCacheSize (cache_set k v mgr)"
      using gt by (simp add: cache_set_cap)
    have sz: "getCacheSize (cache_set k v mgr) \<le> Suc (maxCacheSize mgr)"
      using ok by (simp add: cache_ok_def size_keys cache_set_keys)
    have one: "Suc (getCacheSize (cache_store k v mgr)) = getCacheSize (cache_set k v mgr)"
      unfolding cache_store_def by (rule cache_cleanup_over_size [OF d gt'])
    have "blockTimestamps (cache_store k v mgr) =
        AList.delete (Min (set (cache_keys (cache_set k v mgr))))
          (blockTimestamps (cache_set k v mgr))"
      using gt' by (simp add: cache_store_def cache_cleanup_def)
    with one sz gt show "blockTimestamps (cache_store k v mgr) =
        AList.delete (Min (set (cache_keys (cache_set k v mgr))))
          (blockTimestamps (cache_set k v mgr))
      \<and> Suc (getCacheSize (cache_store k v mgr)) = getCacheSize (cache_set k v mgr)
      \<and> getCacheSize (cache_store k v mgr) = maxCacheSize mgr"
      by simp
  qed
  have under: "getCacheSize (cache_set k v mgr) \<le> maxCacheSize mgr \<longrightarrow>
      cache_store k v mgr = cache_set k v mgr"
    by (simp add: cache_store_def cache_cleanup_under cache_set_cap)
  have srt: "sorted_wrt (<) (map fst kvs) \<longrightarrow>
      blockTimestamps (store_all kvs \<lparr>blockTimestamps = [], maxCacheSize = C\<rparr>)
        = drop (length kvs - C) kvs"
    by (simp add: store_sorted)
  have last: "sorted_wrt (<) (map fst kvs) \<and> C < length kvs \<longrightarrow>
      getCacheSize (store_all kvs \<lparr>blockTimestamps = [], maxCacheSize = C\<rparr>) = C
      \<and> (\<forall>k\<in>set (take (length kvs - C) (map fst kvs)).
           \<not> cache_has (store_all kvs \<lparr>blockTimestamps = [], maxCacheSize = C\<rparr>) k)
      \<and> (\<forall>k\<in>set (drop (length kvs - C) (map fst kvs)).
           cache_has (store_all kvs \<lparr>blockTimestamps = [], maxCacheSize = C\<rparr>) k)"
    using store_sorted_keys [of kvs C]
    by (simp add: getCacheSize_def cache_has_def cache_keys_def store_sorted drop_map)
  have new: "cache_ok new_BlockTimeManager \<and> maxCacheSize new_BlockTimeManager = 100"
    by (simp add: new_BlockTimeManager_def cache_ok_def cache_keys_def getCacheSize_def)
  from inv fetch over under srt last new show ?thesis by blast
qed

theorem C1_cache_capacity_witness:
  "store_all [(5, 50), (7, 70), (9, 90)] \<lparr>blockTimestamps = [], maxCacheSize = 2\<rparr>
     = \<lparr>blockTimestamps = [(7, 70), (9, 90)], maxCacheSize = 2\<rparr>
   \<and> \<not> cache_has (store_all [(5, 50), (7, 70), (9, 90)]
          \<lparr>blockTimestamps = [], maxCacheSize = 2\<rparr>) 5
   \<and> cache_store 9 90 \<lparr>blockTimestamps = [(7, 70), (5, 50)], maxCacheSize = 2\<rparr>
     = \<lparr>blockTimestamps = [(7, 70), (9, 90)], maxCacheSize = 2\<rparr>
   \<and> cache_ok (fst (snd (getBlockTimestamp (\<lambda>k. Block 3) 9 3
        \<lparr>blockTimestamps = [(7, 70), (5, 50)], maxCacheSize = 2\<rparr>)))"
proof -
  let ?kvs = "[(5, 50), (7, 70), (9, 90)] :: (int \<times> int) list"
  let ?mgr = "\<lparr>blockTimestamps = [(7, 70), (5, 50)], maxCacheSize = 2\<rparr>"
  have ok: "cache_ok ?mgr"
    by (simp add: cache_ok_def cache_keys_def getCacheSize_def)
  have over: "getCacheSize (cache_set 9 90 ?mgr) > maxCacheSize ?mgr"
    by (simp add: cache_set_def getCacheSize_def)
  have srt: "sorted_wrt (<) (map fst ?kvs)" and len: "2 < length ?kvs" by simp_all
  have cap: "maxCacheSize (cache_store 9 90 ?mgr) = 2"
    by (simp add: cache_store_def cache_cleanup_cap cache_set_cap)
  have cap': "maxCacheSize (store_all ?kvs \<lparr>blockTimestamps = [], maxCacheSize = 2\<rparr>) = 2"
    by (simp add: store_all_cap)
  note C1 = C1_cache_capacity [of ?mgr ?kvs "\<lambda>k. Block 3" 9 3 9 90 2]
  from C1 srt have "blockTimestamps (store_all ?kvs \<lparr>blockTimestamps = [], maxCacheSize = 2\<rparr>)
      = [(7, 70), (9, 90)]" by simp
  moreover from C1 srt len
  have "\<not> cache_has (store_all ?kvs \<lparr>blockTimestamps = [], maxCacheSize = 2\<rparr>) 5"
    by simp
  moreover from C1 ok over
  have "blockTimestamps (cache_store 9 90 ?mgr) = [(7, 70), (9, 90)]"
    by (simp add: cache_set_def cache_keys_def)
  moreover from C1 ok
  have "cache_ok (fst (snd (getBlockTimestamp (\<lambda>k. Block 3) 9 3 ?mgr)))" by blast
  ultimately show ?thesis using cap cap'
    by (simp add: BlockTimeManager.equality)
qed

lemma upto13: "[1..3] = [1, 2, (3::int)]" and upto12: "[1..2] = [1, (2::int)]"
  by (simp_all add: upto_rec1)

text \<open>
  C2. For a block number absent from the cache, \<open>getBlockTimestamp\<close> makes at most
  \<open>maxRetries\<close> provider fetches (3 by default). If every attempt \<open>1..maxRetries\<close> fails (the
  provider answers \<open>null\<close> or raises), the effects are one fetch per attempt, each but the last
  followed by a sleep of \<open>calculateBackoffDelay(attempt)\<close>, the result is \<open>null\<close> and the cache is
  unchanged. If attempt \<open>j\<close> is the first to succeed, the effects are a fetch and a backoff
  sleep for each of the attempts \<open>1..j-1\<close> and one more fetch; the entry is stored (with the
  cleanup applied) and its value, the block's timestamp in milliseconds, is returned.
\<close>

theorem C2_fetch_retry:
  "\<not> cache_has mgr b \<Longrightarrow>
   int (fetch_count (snd (snd (getBlockTimestamp prov b R mgr)))) \<le> max 0 R
   \<and> ((\<forall>k. 1 \<le> k \<and> k \<le> R \<longrightarrow> is_failure (prov k)) \<longrightarrow>
         getBlockTimestamp prov b R mgr =
           (None, mgr,
            concat (map (\<lambda>k. Fetch b #
              (if k < R then [Sleep (calculateBackoffDelay_default k)] else [])) [1..R])))
   \<and> (1 \<le> j \<and> j \<le> R \<and> prov j = Block ts
           \<and> (\<forall>k. 1 \<le> k \<and> k < j \<longrightarrow> is_failure (prov k)) \<longrightarrow>
         getBlockTimestamp prov b R mgr =
           (Some (ts * 1000), cache_store b (ts * 1000) mgr,
            concat (map (\<lambda>k. [Fetch b, Sleep (calculateBackoffDelay_default k)]) [1..j - 1])
              @ [Fetch b]))
   \<and> getBlockTimestamp_default prov b mgr = getBlockTimestamp prov b 3 mgr"
proof -
  assume miss: "\<not> cache_has mgr b"
  have unfold: "getBlockTimestamp prov b R mgr = fetch_loop prov b R 1 mgr"
    using miss by (simp add: getBlockTimestamp_def)
  have count: "int (fetch_count (snd (snd (getBlockTimestamp prov b R mgr)))) \<le> max 0 R"
    using fetch_loop_count [of prov b R 1 mgr] by (simp add: unfold)
  have fail: "(\<forall>k. 1 \<le> k \<and> k \<le> R \<longrightarrow> is_failure (prov k)) \<longrightarrow>
         getBlockTimestamp prov b R mgr =
           (None, mgr,
            concat (map (\<lambda>k. Fetch b #
              (if k < R then [Sleep (calculateBackoffDelay_default k)] else [])) [1..R]))"
    unfolding unfold by (intro impI fetch_loop_all_fail)
  have succ: "1 \<le> j \<and> j \<le> R \<and> prov j = Block ts
           \<and> (\<forall>k. 1 \<le> k \<and> k < j \<longrightarrow> is_failure (prov k)) \<longrightarrow>
         getBlockTimestamp prov b R mgr =
           (Some (ts * 1000), cache_store b (ts * 1000) mgr,
            concat (map (\<lambda>k. [Fetch b, Sleep (calculateBackoffDelay_default k)]) [1..j - 1])
              @ [Fetch b])"
    unfolding unfold by (intro impI fetch_loop_success) simp_all
  have dflt: "getBlockTimestamp_default prov b mgr = getBlockTimestamp prov b 3 mgr"
    by (simp add: getBlockTimestamp_default_def)
  from count fail succ dflt show ?thesis by blast
qed

theorem C2_fetch_retry_witness:
  "getBlockTimestamp_default (\<lambda>k. if k = 3 then Block 1700000000 else Throws) 77
       new_BlockTimeManager
     = (Some 1700000000000,
        \<lparr>blockTimestamps = [(77, 1700000000000)], maxCacheSize = 100\<rparr>,
        [Fetch 77, Sleep 1000, Fetch 77, Sleep 2000, Fetch 77])
   \<and> getBlockTimestamp_default (\<lambda>k. NoBlock) 77 new_BlockTimeManager
     = (None, new_BlockTimeManager, [Fetch 77, Sleep 1000, Fetch 77, Sleep 2000, Fetch 77])"
proof -
  let ?p = "\<lambda>k::int. if k = 3 then Block 1700000000 else Throws"
  have miss: "\<not> cache_has new_BlockTimeManager 77"
    by (simp add: cache_has_def cache_keys_def new_BlockTimeManager_def)
  have d: "calculateBackoffDelay_default 1 = 1000" "calculateBackoffDelay_default 2 = 2000"
    by (simp_all add: calculateBackoffDelay_default_def calculateBackoffDelay_def)
  have st: "cache_store 77 1700000000000 new_BlockTimeManager
      = \<lparr>blockTimestamps = [(77, 1700000000000)], maxCacheSize = 100\<rparr>"
    by (simp add: cache_store_def cache_set_def cache_cleanup_def getCacheSize_def
        new_BlockTimeManager_def)
  have "getBlockTimestamp ?p 77 3 new_BlockTimeManager
      = (Some 1700000000000, cache_store 77 1700000000000 new_BlockTimeManager,
         [Fetch 77, Sleep 1000, Fetch 77, Sleep 2000, Fetch 77])"
    using C2_fetch_retry [OF miss, of ?p 3 3 1700000000]
    by (simp add: is_failure_def upto12 d)
  moreover have "getBlockTimestamp (\<lambda>k. NoBlock) 77 3 new_BlockTimeManager
      = (None, new_BlockTimeManager, [Fetch 77, Sleep 1000, Fetch 77, Sleep 2000, Fetch 77])"
    using C2_fetch_retry [OF miss, of "\<lambda>k. NoBlock" 3 1 0]
    by (simp add: is_failure_def upto13 d)
  ultimately show ?thesis
    using st by (simp add: getBlockTimestamp_default_def)
qed

section \<open>Properties of the connection lifecycle manager\<close>

lemma exit_count_simps [simp]:
  "exit_count [] = 0"
  "exit_count (es @ es') = exit_count es + exit_count es'"
  "exit_count [ProcessExit c] = 1" "exit_count [Open n] = 0"
  "exit_count [Destroy n] = 0" "exit_count [SleepFor d] = 0"
  by (simp_all add: exit_count_def)

lemma sleep_count_simps [simp]:
  "sleep_count [] = 0"
  "sleep_count (es @ es') = sleep_count es + sleep_count es'"
  "sleep_count [ProcessExit c] = 0" "sleep_count [Open n] = 0"
  "sleep_count [Destroy n] = 0" "sleep_count [SleepFor d] = 1"
  by (simp_all add: sleep_count_def)

lemma reconnect_enter_fatal:
  "reconnectAttempts s \<ge> maxReconnectAttempts s \<Longrightarrow>
   reconnect_enter s = s\<lparr>exited := Some 1, effects := effects s @ [ProcessExit 1]\<rparr>"
  by (simp add: reconnect_enter_def emit_def)

lemma reconnect_enter_live:
  assumes "reconnectAttempts s < maxReconnectAttempts s"
  shows "reconnectAttempts (reconnect_enter s) = reconnectAttempts s + 1"
    and "exited (reconnect_enter s) = exited s"
    and "\<not> isConnected (reconnect_enter s)"
    and "healthCheckInterval (reconnect_enter s) = None"
    and "maxReconnectAttempts (reconnect_enter s) = maxReconnectAttempts s"
    and "exit_count (effects (reconnect_enter s)) = exit_count (effects s)"
    and "sleep_count (effects (reconnect_enter s)) = sleep_count (effects s)"
  using assms by (auto simp: reconnect_enter_def emit_def Let_def split: option.splits)

lemma reconnect_fatal:
  "reconnectAttempts s \<ge> maxReconnectAttempts s \<Longrightarrow>
   reconnect env s = s\<lparr>exited := Some 1, effects := effects s @ [ProcessExit 1]\<rparr>"
  by (subst reconnect.simps) (simp add: reconnect_enter_fatal Let_def)

lemma take_prefix_trans:
  assumes "take (length a + m) xs = a @ b"
  shows "take (length a) xs = a"
proof -
  have "take (length a) xs = take (length a) (take (length a + m) xs)" by simp
  also have "\<dots> = a" unfolding assms by simp
  finally show ?thesis .
qed

lemma reconnect_outcome_trans_aux:
  "reconnect_outcome s' r \<Longrightarrow> exited s' = None \<Longrightarrow> maxReconnectAttempts s' = maxReconnectAttempts s \<Longrightarrow>
   reconnectAttempts s' \<ge> reconnectAttempts s \<Longrightarrow> exit_count (effects s') = exit_count (effects s) \<Longrightarrow>
   (\<exists>es. effects s' = effects s @ es) \<Longrightarrow> reconnect_outcome s r"
  unfolding reconnect_outcome_def
  by (elim conjE disjE exE) (auto dest: take_prefix_trans)

lemma run_connect_reconnect:
  "exited s = None \<Longrightarrow> reconnect_outcome s (connect env s)"
  "exited s = None \<Longrightarrow> reconnect_outcome s (reconnect env s)"
proof (induction env s and env s rule: connect_reconnect.induct)
  case (1 env s)
  let ?s0 = "s\<lparr>sessions := sessions s + 1\<rparr>"
  let ?s1 = "emit (Open (sessions s)) (?s0\<lparr>provider := Some (sessions s), healthCheckInterval := Some (sessions s)\<rparr>)"
  show ?case
  proof (cases "env (sessions s)")
    case OpenFails
    have "reconnect_outcome ?s0 (reconnect env ?s0)"
      using "1.IH"(1) [OF refl refl OpenFails] "1.prems" by simp
    then have "reconnect_outcome s (reconnect env ?s0)"
      by (rule reconnect_outcome_trans_aux) (use "1.prems" in auto)
    then show ?thesis by (subst connect.simps) (simp add: OpenFails Let_def)
  next
    case Timeout
    have "reconnect_outcome ?s1 (reconnect env ?s1)"
      using "1.IH"(2) [OF refl refl Timeout] "1.prems" by (simp add: emit_def)
    then have "reconnect_outcome s (reconnect env ?s1)"
      by (rule reconnect_outcome_trans_aux) (use "1.prems" in \<open>auto simp: emit_def\<close>)
    then show ?thesis by (subst connect.simps) (simp add: Timeout Let_def)
  next
    case Confirmed
    then show ?thesis
      by (subst connect.simps) (use "1.prems" in \<open>simp add: Let_def reconnect_outcome_def emit_def\<close>)
  qed
next
  case (2 env s)
  show ?case
  proof (cases "reconnectAttempts s \<ge> maxReconnectAttempts s")
    case True
    then show ?thesis using "2.prems"
      by (simp add: reconnect_fatal reconnect_outcome_def)
  next
    case False
    then have lt: "reconnectAttempts s < maxReconnectAttempts s" by simp
    let ?s1 = "reconnect_enter s"
    let ?s2 = "reconnect_resume ?s1"
    have live: "exited ?s1 = None" using reconnect_enter_live(2) [OF lt] "2.prems" by simp
    then have live2: "exited ?s2 = None" by (simp add: reconnect_resume_def emit_def)
    have "reconnect_outcome ?s2 (connect env ?s2)"
      using "2.IH" [OF refl _ live2] live by simp
    then have "reconnect_outcome s (connect env ?s2)"
      apply (rule reconnect_outcome_trans_aux)
      using live2 reconnect_enter_live [OF lt]
          apply (auto simp: reconnect_resume_def emit_def)
      apply (auto simp: reconnect_enter_def Let_def emit_def split: option.splits if_splits)
      done
    then show ?thesis using live by (subst reconnect.simps) (simp add: Let_def)
  qed
qed

lemma all_fail_connect_reconnect:
  "\<forall>n. env n \<noteq> Confirmed \<Longrightarrow> exited s = None \<Longrightarrow>
     exited (connect env s) = Some 1
     \<and> int (sleep_count (effects (connect env s))) =
         int (sleep_count (effects s)) + max 0 (maxReconnectAttempts s - reconnectAttempts s)"
  "\<forall>n. env n \<noteq> Confirmed \<Longrightarrow> exited s = None \<Longrightarrow>
     exited (reconnect env s) = Some 1
     \<and> int (sleep_count (effects (reconnect env s))) =
         int (sleep_count (effects s)) + max 0 (maxReconnectAttempts s - reconnectAttempts s)"
proof (induction env s and env s rule: connect_reconnect.induct)
  case (1 env s)
  let ?s0 = "s\<lparr>sessions := sessions s + 1\<rparr>"
  let ?s1 = "emit (Open (sessions s)) (?s0\<lparr>provider := Some (sessions s), healthCheckInterval := Some (sessions s)\<rparr>)"
  show ?case
  proof (cases "env (sessions s)")
    case OpenFails
    from "1.IH"(1) [OF refl refl OpenFails "1.prems"(1)] "1.prems"(2)
    show ?thesis by (subst (1 2) connect.simps) (simp add: OpenFails Let_def)
  next
    case Timeout
    from "1.IH"(2) [OF refl refl Timeout "1.prems"(1)] "1.prems"(2)
    show ?thesis by (subst (1 2) connect.simps) (simp add: Timeout Let_def emit_def)
  next
    case Confirmed
    with "1.prems"(1) show ?thesis by simp
  qed
next
  case (2 env s)
  show ?case
  proof (cases "reconnectAttempts s \<ge> maxReconnectAttempts s")
    case True
    then show ?thesis by (simp add: reconnect_fatal)
  next
    case False
    then have lt: "reconnectAttempts s < maxReconnectAttempts s" by simp
    let ?s1 = "reconnect_enter s"
    let ?s2 = "reconnect_resume ?s1"
    have live: "exited ?s1 = None" using reconnect_enter_live(2) [OF lt] "2.prems" by simp
    then have live2: "exited ?s2 = None" by (simp add: reconnect_resume_def emit_def)
    have eq: "reconnect env s = connect env ?s2"
      using live by (subst reconnect.simps) (simp add: Let_def)
    from "2.IH" [OF refl _ "2.prems"(1) live2] live reconnect_enter_live [OF lt] lt
    show ?thesis unfolding eq
      by (simp add: reconnect_resume_def emit_def)
  qed
qed

text \<open>
  C3. A \<open>reconnect()\<close> entered below the ceiling increments the attempt counter by one. The
  call is fatal exactly when the incremented counter would exceed the ceiling (10 by
  default); it then stops retrying: it exits the process with code 1 and does nothing else.
  Every chain of calls started by \<open>reconnect()\<close> or \<open>connect()\<close> in a live process ends either
  with exactly one fatal exit, which is the last effect, the counter never having been
  reset, or alive and connected with the counter reset to zero; in particular, when no
  session is ever confirmed, the chain sleeps once per remaining attempt and then exits.
\<close>

theorem C3_reconnect_ceiling:
  "exited s = None \<Longrightarrow>
   (reconnectAttempts s < maxReconnectAttempts s \<longrightarrow>
      reconnectAttempts (reconnect_enter s) = reconnectAttempts s + 1
      \<and> exited (reconnect_enter s) = None)
   \<and> ((exited (reconnect_enter s) = Some 1)
        = spec_reconnect_is_fatal (reconnectAttempts s) (maxReconnectAttempts s))
   \<and> (spec_reconnect_is_fatal (reconnectAttempts s) (maxReconnectAttempts s) \<longrightarrow>
        reconnect env s = s\<lparr>exited := Some 1, effects := effects s @ [ProcessExit 1]\<rparr>)
   \<and> reconnect_outcome s (reconnect env s)
   \<and> reconnect_outcome s (connect env s)
   \<and> ((\<forall>n. env n \<noteq> Confirmed) \<longrightarrow>
        exited (reconnect env s) = Some 1
        \<and> int (sleep_count (effects (reconnect env s))) =
            int (sleep_count (effects s))
              + max 0 (maxReconnectAttempts s - reconnectAttempts s))
   \<and> maxReconnectAttempts (new_RPCProvider url) = 10
   \<and> reconnectAttempts (new_RPCProvider url) = 0"
proof -
  assume live: "exited s = None"
  have inc: "reconnectAttempts s < maxReconnectAttempts s \<longrightarrow>
      reconnectAttempts (reconnect_enter s) = reconnectAttempts s + 1
      \<and> exited (reconnect_enter s) = None"
    using reconnect_enter_live(1,2) [of s] live by simp
  have iff: "(exited (reconnect_enter s) = Some 1)
        = spec_reconnect_is_fatal (reconnectAttempts s) (maxReconnectAttempts s)"
  proof (cases "reconnectAttempts s < maxReconnectAttempts s")
    case True
    with reconnect_enter_live(2) [OF True] live show ?thesis
      by (simp add: spec_reconnect_is_fatal_def)
  next
    case False
    then show ?thesis
      by (simp add: reconnect_enter_fatal spec_reconnect_is_fatal_def)
  qed
  have fatal: "spec_reconnect_is_fatal (reconnectAttempts s) (maxReconnectAttempts s) \<longrightarrow>
        reconnect env s = s\<lparr>exited := Some 1, effects := effects s @ [ProcessExit 1]\<rparr>"
    by (simp add: spec_reconnect_is_fatal_def reconnect_fatal)
  have allfail: "(\<forall>n. env n \<noteq> Confirmed) \<longrightarrow>
        exited (reconnect env s) = Some 1
        \<and> int (sleep_count (effects (reconnect env s))) =
            int (sleep_count (effects s))
              + max 0 (maxReconnectAttempts s - reconnectAttempts s)"
    using all_fail_connect_reconnect(2) [of env s] live by blast
  have dflt: "maxReconnectAttempts (new_RPCProvider url) = 10
      \<and> reconnectAttempts (new_RPCProvider url) = 0"
    by (simp add: new_RPCProvider_def)
  from inc iff fatal run_connect_reconnect [OF live, of env] allfail dflt
  show ?thesis by blast
qed

theorem C3_reconnect_ceiling_witness:
  "exited (reconnect (\<lambda>n. Timeout) (new_RPCProvider ''wss://bsc'')) = Some 1
   \<and> sleep_count (effects (reconnect (\<lambda>n. Timeout) (new_RPCProvider ''wss://bsc''))) = 10
   \<and> exit_count (effects (reconnect (\<lambda>n. Timeout) (new_RPCProvider ''wss://bsc''))) = 1
   \<and> reconnectAttempts (reconnect_enter (new_RPCProvider ''wss://bsc'')) = 1
   \<and> reconnect (\<lambda>n. Timeout) ((new_RPCProvider ''wss://bsc'')\<lparr>reconnectAttempts := 10\<rparr>)
       = (new_RPCProvider ''wss://bsc'')
           \<lparr>reconnectAttempts := 10, exited := Some 1, effects := [ProcessExit 1]\<rparr>"
proof -
  let ?s = "new_RPCProvider ''wss://bsc''"
  let ?t = "?s\<lparr>reconnectAttempts := 10\<rparr>"
  have live: "exited ?s = None" "exited ?t = None" by (simp_all add: new_RPCProvider_def)
  have f: "maxReconnectAttempts ?s = 10" "reconnectAttempts ?s = 0" "effects ?s = []"
    by (simp_all add: new_RPCProvider_def)
  note a = C3_reconnect_ceiling [OF live(1), of "\<lambda>n. Timeout"]
  note b = C3_reconnect_ceiling [OF live(2), of "\<lambda>n. Timeout"]
  from a have 1: "exited (reconnect (\<lambda>n. Timeout) ?s) = Some 1"
    and 2: "sleep_count (effects (reconnect (\<lambda>n. Timeout) ?s)) = 10"
    and 4: "reconnectAttempts (reconnect_enter ?s) = 1"
    by (simp_all add: f)
  from a 1 have 3: "exit_count (effects (reconnect (\<lambda>n. Timeout) ?s)) = 1"
    by (simp add: reconnect_outcome_def f)
  from b have 5: "reconnect (\<lambda>n. Timeout) ?t = ?t\<lparr>exited := Some 1, effects := effects ?t @ [ProcessExit 1]\<rparr>"
    by (simp add: spec_reconnect_is_fatal_def f)
  from 1 2 3 4 5 show ?thesis by (simp add: f)
qed

lemma connected_state_eq:
  "connected_state = (new_RPCProvider ''wss://bsc'')
     \<lparr>provider := Some 0, healthCheckInterval := Some 0, isConnected := True,
      sessions := 1, effects := [Open 0]\<rparr>"
  unfolding connected_state_def
  by (subst connect.simps) (simp add: new_RPCProvider_def Let_def emit_def)

text \<open>
  C4, as stated, fails. In the connected state the transport reports an error while a health
  probe is in flight: the error listener enters \<open>reconnect()\<close>, which suspends at the
  teardown of the session; the probe is then rejected and its handler enters \<open>reconnect()\<close>
  a second time. The second invocation is not a no-op: the counter goes from 1 to 2 and a
  second teardown of the same session is started.
\<close>

theorem C4_reentrant_reconnect_counterexample:
  "\<not> (on_health_check_failed (on_provider_error connected_state)
        = on_provider_error connected_state)
   \<and> reconnectAttempts (on_provider_error connected_state) = 1
   \<and> reconnectAttempts (on_health_check_failed (on_provider_error connected_state)) = 2
   \<and> effects (on_health_check_failed (on_provider_error connected_state))
       = [Open 0, Destroy 0, Destroy 0]"
  by (simp add: connected_state_eq on_provider_error_def on_health_check_failed_def
      reconnect_enter_def emit_def new_RPCProvider_def Let_def)

text \<open>
  C4, amended. \<open>reconnect()\<close> makes no state check. Whatever the state of a live process,
  and so also while an earlier \<open>reconnect()\<close> is suspended, an invocation entered below the
  ceiling increments the attempt counter by one and starts its own teardown of the current
  session; a transport error and a health-probe failure that race each other, in either
  order, increment the counter twice and start two teardowns.
\<close>

theorem C4_reconnect_not_guarded:
  "exited s = None \<Longrightarrow> reconnectAttempts s + 1 < maxReconnectAttempts s \<Longrightarrow>
   reconnectAttempts (on_provider_error s) = reconnectAttempts s + 1
   \<and> reconnectAttempts (on_health_check_failed s) = reconnectAttempts s + 1
   \<and> reconnectAttempts (on_health_check_failed (on_provider_error s)) = reconnectAttempts s + 2
   \<and> reconnectAttempts (on_provider_error (on_health_check_failed s)) = reconnectAttempts s + 2
   \<and> exited (on_health_check_failed (on_provider_error s)) = None
   \<and> (\<forall>h. provider s = Some h \<longrightarrow>
        effects (on_health_check_failed (on_provider_error s))
          = effects s @ [Destroy h, Destroy h])"
  by (auto simp: on_provider_error_def on_health_check_failed_def
      reconnect_enter_def emit_def Let_def split: option.splits)

theorem C4_reconnect_not_guarded_witness:
  "reconnectAttempts (on_health_check_failed (on_provider_error connected_state)) = 2
   \<and> effects (on_health_check_failed (on_provider_error connected_state))
       = [Open 0, Destroy 0, Destroy 0]"
proof -
  have live: "exited connected_state = None"
    and lt: "reconnectAttempts connected_state + 1 < maxReconnectAttempts connected_state"
    and f: "reconnectAttempts connected_state = 0" "provider connected_state = Some 0"
      "effects connected_state = [Open 0]"
    by (simp_all add: connected_state_eq new_RPCProvider_def)
  from C4_reconnect_not_guarded [OF live lt] show ?thesis by (simp add: f)
qed

section \<open>Properties of the event handlers\<close>

lemma replicate_unfold_numeral: "replicate (numeral n) c = c # replicate (pred_numeral n) c"
  by (simp add: numeral_eq_Suc)

lemmas units_eval = replicate_unfold_numeral formatUnits_def dec_string.simps digit_char_def
  trim_leading_def trim_trailing_def

lemmas float_eval = parseFloat_def is_digit_def digit_val_def digits_val_def

lemma iso_1700000005000: "toISOString 1700000005000 = ''2023-11-14T22:13:25.000Z''"
  by code_simp

lemma iso_1700000005001: "toISOString 1700000005001 = ''2023-11-14T22:13:25.001Z''"
  by code_simp

lemma units_supply: "formatUnits 1000000000000000000000000 18 = ''1000000.0''"
  by (simp add: units_eval)

lemma units_one: "formatUnits 1000000000000000000 18 = ''1.0''"
  by (simp add: units_eval)

lemma units_five: "formatUnits 5000000000000000000 18 = ''5.0''"
  by (simp add: units_eval)

lemma units_const: "formatUnits 1000000000 18 = ''0.000000001''"
  by (simp add: units_eval)

lemma float_one: "parseFloat ''1.0'' = Some 1"
  by (simp add: float_eval)

lemma float_const: "parseFloat ''0.000000001'' = Some (1 / 1000000000)"
  by (simp add: float_eval)

lemma example_provider: "getProvider example_monitor = Inr 0"
  by (simp add: getProvider_def example_monitor_def connected_state_eq new_RPCProvider_def)

lemma example_block_time:
  "resolve_block_time w example_create_event example_monitor
     = (example_monitor, 1700000000)"
  by (simp add: resolve_block_time_def getBlockTimestamp_default_def getBlockTimestamp_def
      cache_has_def cache_keys_def cache_get_def example_monitor_def example_create_event_def
      block_time_of_def)


lemma cache_hit:
  assumes "cache_get mgr b = Some ts"
  shows "getBlockTimestamp_default prov b mgr = (Some ts, mgr, [])"
proof -
  from assms have "b \<in> fst ` set (blockTimestamps mgr)"
    unfolding cache_get_def by (metis map_of_eq_None_iff option.distinct(1))
  then have "cache_has mgr b" by (simp add: cache_has_def cache_keys_def)
  with assms show ?thesis
    by (simp add: getBlockTimestamp_default_def getBlockTimestamp_def)
qed

lemma resolve_block_time_hit:
  assumes "cache_get (blockTimeManager m) (blockNumber ev) = Some ts"
  shows "resolve_block_time w ev m = (m, block_time_of (Some ts) (now_block_time w))"
  by (simp add: resolve_block_time_def cache_hit [OF assms])

lemma sendToKafka_frame:
  "createdTokens (sendToKafka w tp e m) = createdTokens m"
  "aux_calls (sendToKafka w tp e m) = aux_calls m"
  "kafkaProducer (sendToKafka w tp e m) = kafkaProducer m"
  "blockTimeManager (sendToKafka w tp e m) = blockTimeManager m"
  "rpcProvider (sendToKafka w tp e m) = rpcProvider m"
  by (simp_all add: sendToKafka_def split: option.splits)

lemma resolve_block_time_frame:
  "createdTokens (fst (resolve_block_time w ev m)) = createdTokens m"
  "aux_calls (fst (resolve_block_time w ev m)) = aux_calls m"
  "kafkaProducer (fst (resolve_block_time w ev m)) = kafkaProducer m"
  "bus (fst (resolve_block_time w ev m)) = bus m"
  "rpcProvider (fst (resolve_block_time w ev m)) = rpcProvider m"
  by (simp_all add: resolve_block_time_def split: prod.splits)

text \<open>
  C8, amended. With the provider connected and the block of the log cached at
  1700000000000 ms, a \<open>TokenCreate\<close> log whose arguments, by name or by position, are creator
  \<open>0xAAA...\<close>, token \<open>0xBBB...\<close>, name \<open>"Pepe"\<close>, symbol \<open>"PEPE"\<close> and totalSupply
  \<open>1000000000000000000000000\<close> yields a record whose \<open>initial_supply\<close> is the string
  \<open>"1000000.0"\<close> and whose \<open>block_time\<close> is 1700000000; the created-token index grows by
  exactly one entry, for \<open>0xBBB...\<close>; and with a working producer exactly that record is
  published to the topic of created tokens.
\<close>

theorem C8_token_create_scenario:
  assumes "getProvider m = Inr h"
    and "cache_get (blockTimeManager m) (blockNumber ev) = Some 1700000000000"
    and "js_or (arg (args ev) ''creator'') (arg_at (args ev) 0)
           = Str ''0xAAAAAAAAAAAAAAAAAAAAAAAAAAAAAAAAAAAAAAAA''"
    and "js_or (arg (args ev) ''token'') (arg_at (args ev) 1)
           = Str ''0xBBBBBBBBBBBBBBBBBBBBBBBBBBBBBBBBBBBBBBBB''"
    and "js_or (arg (args ev) ''name'') (arg_at (args ev) 3) = Str ''Pepe''"
    and "js_or (arg (args ev) ''symbol'') (arg_at (args ev) 4) = Str ''PEPE''"
    and "js_or (arg (args ev) ''totalSupply'') (arg_at (args ev) 5)
           = Big 1000000000000000000000000"
  shows "\<exists>m' r. handleTokenCreate w contractVersion ev m = (m', Inr r)
           \<and> initial_supply r = ''1000000.0''
           \<and> block_time r = 1700000000
           \<and> token_name r = Str ''Pepe'' \<and> token_symbol r = Str ''PEPE''
           \<and> creator_wallet r = Str ''0xAAAAAAAAAAAAAAAAAAAAAAAAAAAAAAAAAAAAAAAA''
           \<and> createdTokens m' = createdTokens m @
                [\<lparr>created_token_mint = Str ''0xBBBBBBBBBBBBBBBBBBBBBBBBBBBBBBBBBBBBBBBB'',
                  created_at = now_created w\<rparr>]
           \<and> (kafkaProducer m \<noteq> None \<and> send_ok w \<longrightarrow>
                 bus m' = bus m @ [\<lparr>topic = TOKEN_RAW_CREATED, key = kafka_key w (Created r),
                                     payload = Created r\<rparr>])"
  using assms(1,3-7)
  by (simp add: handleTokenCreate_def resolve_block_time_hit [OF assms(2)] block_time_of_def
      formatToken_def getBigInt_def units_supply Let_def sendToKafka_frame sendToKafka_def
      split: option.splits)

lemma purchase_market_cap_state: "fst (purchase_market_cap w cv ev m) = m"
  by (simp add: purchase_market_cap_def Let_def split: sum.splits)

lemma purchase_market_cap_zero:
  assumes "formatToken (bigint_of_string w)
             (js_or (arg (args ev) ''price'') (arg_at (args ev) 2)) = Inr priceText"
    and "\<not> js_positive (parseFloat priceText)"
  shows "purchase_market_cap w ''V2'' ev m = (m, Inr (Some 0))"
  using assms by (simp add: purchase_market_cap_def)

lemma sale_market_cap_V2:
  assumes "formatToken (bigint_of_string w)
             (js_or (arg (args ev) ''price'') (arg_at (args ev) 2)) = Inr priceText"
  shows "sale_market_cap w ''V2'' ev m =
     (if js_positive (parseFloat priceText)
      then (m\<lparr>aux_calls := aux_calls m @
                 [TotalSupplyCall (js_or (arg (args ev) ''token'') (arg_at (args ev) 0))]\<rparr>,
            Inr (case totalSupply w of
                   None \<Rightarrow> Some 0
                 | Some n \<Rightarrow> if n = 0 then Some 0
                             else calculateMarketCap (parseFloat priceText)
                                    (parseFloat (formatUnits n 18))))
      else (m, Inr (Some 0)))"
  using assms
  by (simp add: sale_market_cap_def getTokenTotalSupply_def Let_def truthy_def
      formatToken_def getBigInt_def split: option.splits)

lemma tradeData_market_cap:
  "tradeData w dir cv ev bt mc = Inr r \<Longrightarrow> market_cap r = mc"
  by (auto simp: tradeData_def split: sum.splits if_splits)

lemma handleTokenPurchase_aux:
  "aux_calls (fst (handleTokenPurchase w cv ev m)) = aux_calls m"
proof (cases "getProvider m")
  case (Inl e)
  then show ?thesis by (simp add: handleTokenPurchase_def)
next
  case (Inr h)
  obtain m1 bt where r: "resolve_block_time w ev m = (m1, bt)" by fastforce
  then have a: "aux_calls m1 = aux_calls m"
    using resolve_block_time_frame(2) [of w ev m] by simp
  obtain mc where p: "purchase_market_cap w cv ev m1 = (m1, mc)"
    using purchase_market_cap_state [of w cv ev m1] by (cases "purchase_market_cap w cv ev m1") simp
  show ?thesis
    using Inr r p a
    by (simp add: handleTokenPurchase_def sendToKafka_frame split: sum.splits)
qed

lemma handleTokenPurchase_zero:
  assumes "getProvider m = Inr h"
    and "formatToken (bigint_of_string w)
             (js_or (arg (args ev) ''price'') (arg_at (args ev) 2)) = Inr priceText"
    and "\<not> js_positive (parseFloat priceText)"
    and "handleTokenPurchase w ''V2'' ev m = (m', Inr r)"
  shows "market_cap r = Some 0"
proof -
  obtain m1 bt where r: "resolve_block_time w ev m = (m1, bt)" by fastforce
  from assms(4) show ?thesis
    using assms(1) r purchase_market_cap_zero [OF assms(2,3), of m1]
    by (auto simp: handleTokenPurchase_def split: sum.splits dest: tradeData_market_cap)
qed

lemma handleTokenSale_aux:
  assumes "getProvider m = Inr h"
    and "formatToken (bigint_of_string w)
             (js_or (arg (args ev) ''price'') (arg_at (args ev) 2)) = Inr priceText"
  shows "aux_calls (fst (handleTokenSale w ''V2'' ev m)) =
     (if js_positive (parseFloat priceText)
      then aux_calls m @ [TotalSupplyCall (js_or (arg (args ev) ''token'') (arg_at (args ev) 0))]
      else aux_calls m)"
proof -
  obtain m1 bt where r: "resolve_block_time w ev m = (m1, bt)" by fastforce
  then have a: "aux_calls m1 = aux_calls m"
    using resolve_block_time_frame(2) [of w ev m] by simp
  show ?thesis
    using assms(1) r a
    by (simp add: handleTokenSale_def sale_market_cap_V2 [OF assms(2)] sendToKafka_frame
        split: sum.splits)
qed

lemma handleTokenSale_cap:
  assumes "getProvider m = Inr h"
    and "formatToken (bigint_of_string w)
             (js_or (arg (args ev) ''price'') (arg_at (args ev) 2)) = Inr priceText"
    and "handleTokenSale w ''V2'' ev m = (m', Inr r)"
  shows "market_cap r =
     (if js_positive (parseFloat priceText)
      then (case totalSupply w of
              None \<Rightarrow> Some 0
            | Some n \<Rightarrow> if n = 0 then Some 0
                        else calculateMarketCap (parseFloat priceText)
                               (parseFloat (formatUnits n 18)))
      else Some 0)"
proof -
  obtain m1 bt where r: "resolve_block_time w ev m = (m1, bt)" by fastforce
  from assms(3) show ?thesis
    using assms(1) r
    by (auto simp: handleTokenSale_def sale_market_cap_V2 [OF assms(2)]
        split: sum.splits if_splits dest: tradeData_market_cap)
qed

lemma units_supply_27: "formatUnits 1000000000000000000000000000 18 = ''1000000000.0''"
  by (simp add: units_eval)

lemma units_zero: "formatUnits 0 18 = ''0.0''"
  by (simp add: units_eval)

lemma float_supply: "parseFloat ''1000000000.0'' = Some 1000000000"
  by (simp add: float_eval)

lemma float_zero: "parseFloat ''0.0'' = Some 0"
  by (simp add: float_eval)

lemma example_trade_price:
  "formatToken (bigint_of_string example_world)
     (js_or (arg (args example_trade_event) ''price'') (arg_at (args example_trade_event) 2))
   = Inr ''1.0''"
  by (simp add: example_trade_event_def arg_def arg_at_def js_or_def truthy_def
      formatToken_def getBigInt_def units_one)

lemma example_zero_price:
  "formatToken (bigint_of_string example_world)
     (js_or (arg (args example_zero_price_event) ''price'')
        (arg_at (args example_zero_price_event) 2))
   = Inr ''0.0''"
  by (simp add: example_zero_price_event_def arg_def arg_at_def js_or_def truthy_def
      formatToken_def getBigInt_def units_zero)

lemma example_trade_block_time:
  "resolve_block_time w example_trade_event example_monitor = (example_monitor, 1700000000)"
  "resolve_block_time w example_zero_price_event example_monitor = (example_monitor, 1700000000)"
  by (simp_all add: resolve_block_time_def getBlockTimestamp_default_def getBlockTimestamp_def
      cache_has_def cache_keys_def cache_get_def example_monitor_def example_trade_event_def
      example_zero_price_event_def block_time_of_def)

lemma example_trade_data:
  "tradeData example_world dir ''V2'' example_trade_event bt mc =
     Inr \<lparr>chain_id = 0,
          token_mint = Str ''0xBBBBBBBBBBBBBBBBBBBBBBBBBBBBBBBBBBBBBBBB'',
          block_time = bt, slot = 34000000,
          signature = Str ''0x5151515151515151515151515151515151515151515151515151515151515151'',
          kafka_timestamp = ''2023-11-14T22:13:25.000Z'',
          direction = dir,
          buyer_wallet = Str ''0xAAAAAAAAAAAAAAAAAAAAAAAAAAAAAAAAAAAAAAAA'',
          token_amount = ''5.0'', token_decimals = 18, sol_amount = ''5.0'',
          market_cap = mc\<rparr>"
  by (simp add: tradeData_def example_trade_event_def arg_def arg_at_def js_or_def truthy_def
      formatToken_def formatBNB_def getBigInt_def units_five generateKafkaTimestamp_def
      example_world_def iso_1700000005000)

lemma example_zero_trade_data:
  "tradeData example_world dir ''V2'' example_zero_price_event bt mc =
     Inr \<lparr>chain_id = 0,
          token_mint = Str ''0xBBBBBBBBBBBBBBBBBBBBBBBBBBBBBBBBBBBBBBBB'',
          block_time = bt, slot = 34000000,
          signature = Str ''0x5151515151515151515151515151515151515151515151515151515151515151'',
          kafka_timestamp = ''2023-11-14T22:13:25.000Z'',
          direction = dir,
          buyer_wallet = Str ''0xAAAAAAAAAAAAAAAAAAAAAAAAAAAAAAAAAAAAAAAA'',
          token_amount = ''5.0'', token_decimals = 18, sol_amount = ''5.0'',
          market_cap = mc\<rparr>"
  by (simp add: tradeData_def example_zero_price_event_def arg_def arg_at_def js_or_def truthy_def
      formatToken_def formatBNB_def getBigInt_def units_five generateKafkaTimestamp_def
      example_world_def iso_1700000005000)

lemma format_const: "formatToken bos (Big 1000000000) = Inr ''0.000000001''"
  by (simp add: formatToken_def getBigInt_def units_const)

text \<open>
  C5, as stated, fails for purchases: for a \<open>V2\<close> purchase log with price 1 the handler
  makes no auxiliary call, and the market capitalisation it reports is not the price times
  the token's total supply.
\<close>

theorem C5_purchase_no_supply_call_counterexample:
  "formatToken (bigint_of_string example_world)
     (js_or (arg (args example_trade_event) ''price'') (arg_at (args example_trade_event) 2))
     = Inr ''1.0''
   \<and> js_positive (parseFloat ''1.0'')
   \<and> aux_calls (fst (handleTokenPurchase example_world ''V2'' example_trade_event
         example_monitor)) = []
   \<and> map_sum id market_cap (snd (handleTokenPurchase example_world ''V2'' example_trade_event
         example_monitor)) = Inr (Some (1 / 1000000000))"
proof -
  have cap: "purchase_market_cap example_world ''V2'' example_trade_event example_monitor
      = (example_monitor, Inr (Some (1 / 1000000000)))"
    by (simp add: purchase_market_cap_def example_trade_price float_one js_positive_def
        truthy_def format_const float_const calculateMarketCap_def)
  have aux: "aux_calls (fst (handleTokenPurchase example_world ''V2'' example_trade_event
      example_monitor)) = []"
    by (simp add: handleTokenPurchase_aux example_monitor_def)
  have rec: "map_sum id market_cap (snd (handleTokenPurchase example_world ''V2''
      example_trade_event example_monitor)) = Inr (Some (1 / 1000000000))"
    by (simp add: handleTokenPurchase_def example_provider example_trade_block_time cap
        example_trade_data)
  from aux rec show ?thesis
    by (simp add: example_trade_price float_one js_positive_def)
qed

text \<open>
  C5, amended. For a \<open>V2\<close> trade log whose price field is a quantity: the sale handler
  makes the auxiliary total-supply call exactly when the price is positive; the record it
  returns then has \<open>market_cap = price * supply\<close> if the call yields a non-zero supply
  and \<open>market_cap = 0\<close> if the call fails; when the price is not positive (in particular
  when it is 0) the sale record has \<open>market_cap = 0\<close> and no call is made. The purchase
  handler never makes the auxiliary call, and its record has \<open>market_cap = 0\<close> when the
  price is not positive.
\<close>

theorem C5_market_cap:
  "getProvider m = Inr h \<Longrightarrow>
   formatToken (bigint_of_string w)
     (js_or (arg (args ev) ''price'') (arg_at (args ev) 2)) = Inr priceText \<Longrightarrow>
   aux_calls (fst (handleTokenSale w ''V2'' ev m)) =
     (if js_positive (parseFloat priceText)
      then aux_calls m @ [TotalSupplyCall (js_or (arg (args ev) ''token'') (arg_at (args ev) 0))]
      else aux_calls m)
   \<and> (\<forall>m' r. handleTokenSale w ''V2'' ev m = (m', Inr r) \<longrightarrow>
         market_cap r =
           (if js_positive (parseFloat priceText)
            then (case totalSupply w of
                    None \<Rightarrow> Some 0
                  | Some n \<Rightarrow> if n = 0 then Some 0
                              else calculateMarketCap (parseFloat priceText)
                                     (parseFloat (formatUnits n 18)))
            else Some 0))
   \<and> aux_calls (fst (handleTokenPurchase w ''V2'' ev m)) = aux_calls m
   \<and> (\<forall>m' r. handleTokenPurchase w ''V2'' ev m = (m', Inr r) \<longrightarrow>
         \<not> js_positive (parseFloat priceText) \<longrightarrow> market_cap r = Some 0)"
  using handleTokenSale_aux [of m h w ev priceText] handleTokenSale_cap [of m h w ev priceText]
    handleTokenPurchase_aux [of w "''V2''" ev m] handleTokenPurchase_zero [of m h w ev priceText]
  by blast

theorem C5_market_cap_witness:
  "aux_calls (fst (handleTokenSale example_world ''V2'' example_trade_event example_monitor))
     = [TotalSupplyCall (Str ''0xBBBBBBBBBBBBBBBBBBBBBBBBBBBBBBBBBBBBBBBB'')]
   \<and> map_sum id market_cap
        (snd (handleTokenSale example_world ''V2'' example_trade_event example_monitor))
     = Inr (Some 1000000000)
   \<and> aux_calls (fst (handleTokenSale example_world ''V2'' example_zero_price_event
        example_monitor)) = []
   \<and> map_sum id market_cap
        (snd (handleTokenSale example_world ''V2'' example_zero_price_event example_monitor))
     = Inr (Some 0)
   \<and> aux_calls (fst (handleTokenPurchase example_world ''V2'' example_zero_price_event
        example_monitor)) = []
   \<and> map_sum id market_cap
        (snd (handleTokenPurchase example_world ''V2'' example_zero_price_event
           example_monitor))
     = Inr (Some 0)"
proof -
  note one = C5_market_cap [OF example_provider example_trade_price]
  note zero = C5_market_cap [OF example_provider example_zero_price]
  have aux: "aux_calls example_monitor = []" by (simp add: example_monitor_def)
  have tok: "js_or (arg (args example_trade_event) ''token'') (arg_at (args example_trade_event) 0)
      = Str ''0xBBBBBBBBBBBBBBBBBBBBBBBBBBBBBBBBBBBBBBBB''"
    by (simp add: example_trade_event_def arg_def js_or_def truthy_def)
  have sup: "totalSupply example_world = Some 1000000000000000000000000000"
    by (simp add: example_world_def)
  obtain m1 r1 where s1: "handleTokenSale example_world ''V2'' example_trade_event example_monitor
      = (m1, Inr r1)"
    by (simp add: handleTokenSale_def example_provider example_trade_block_time
        sale_market_cap_V2 [OF example_trade_price] example_trade_data float_one js_positive_def)
  obtain m2 r2 where s2: "handleTokenSale example_world ''V2'' example_zero_price_event
      example_monitor = (m2, Inr r2)"
    by (simp add: handleTokenSale_def example_provider example_trade_block_time
        sale_market_cap_V2 [OF example_zero_price] example_zero_trade_data float_zero
        js_positive_def)
  obtain m3 r3 where s3: "handleTokenPurchase example_world ''V2'' example_zero_price_event
      example_monitor = (m3, Inr r3)"
    by (simp add: handleTokenPurchase_def example_provider example_trade_block_time
        purchase_market_cap_zero [OF example_zero_price] float_zero js_positive_def
        example_zero_trade_data)
  from one s1 have "aux_calls m1 = [TotalSupplyCall (Str ''0xBBBBBBBBBBBBBBBBBBBBBBBBBBBBBBBBBBBBBBBB'')]"
    and "market_cap r1 = Some 1000000000"
    by (simp_all add: float_one js_positive_def aux tok sup units_supply_27 float_supply
        calculateMarketCap_def)
  moreover from zero s2 have "aux_calls m2 = []" and "market_cap r2 = Some 0"
    by (simp_all add: float_zero js_positive_def aux)
  moreover from zero s3 have "aux_calls m3 = []" and "market_cap r3 = Some 0"
    by (simp_all add: float_zero js_positive_def aux)
  ultimately show ?thesis by (simp add: s1 s2 s3)
qed

lemma example_create_args:
  "js_or (arg (args example_create_event) ''creator'') (arg_at (args example_create_event) 0)
     = Str ''0xAAAAAAAAAAAAAAAAAAAAAAAAAAAAAAAAAAAAAAAA''"
  "js_or (arg (args example_create_event) ''token'') (arg_at (args example_create_event) 1)
     = Str ''0xBBBBBBBBBBBBBBBBBBBBBBBBBBBBBBBBBBBBBBBB''"
  "js_or (arg (args example_create_event) ''name'') (arg_at (args example_create_event) 3)
     = Str ''Pepe''"
  "js_or (arg (args example_create_event) ''symbol'') (arg_at (args example_create_event) 4)
     = Str ''PEPE''"
  "js_or (arg (args example_create_event) ''totalSupply'') (arg_at (args example_create_event) 5)
     = Big 1000000000000000000000000"
  by (simp_all add: example_create_event_def arg_def js_or_def truthy_def)

lemma example_create_cached:
  "cache_get (blockTimeManager example_monitor) (blockNumber example_create_event)
     = Some 1700000000000"
  by (simp add: cache_get_def example_monitor_def example_create_event_def)

theorem C8_token_create_scenario_witness:
  "\<exists>m' r. handleTokenCreate example_world ''V2'' example_create_event example_monitor
             = (m', Inr r)
     \<and> initial_supply r = ''1000000.0''
     \<and> block_time r = 1700000000
     \<and> createdTokens m' =
          [\<lparr>created_token_mint = Str ''0xBBBBBBBBBBBBBBBBBBBBBBBBBBBBBBBBBBBBBBBB'',
            created_at = 1700000005000\<rparr>]
     \<and> map topic (bus m') = [''token.raw.created'']"
proof -
  from C8_token_create_scenario [OF example_provider example_create_cached example_create_args,
      of example_world "''V2''"]
  obtain m' r where
    "handleTokenCreate example_world ''V2'' example_create_event example_monitor = (m', Inr r)"
    "initial_supply r = ''1000000.0''" "block_time r = 1700000000"
    "createdTokens m' = createdTokens example_monitor @
        [\<lparr>created_token_mint = Str ''0xBBBBBBBBBBBBBBBBBBBBBBBBBBBBBBBBBBBBBBBB'',
          created_at = now_created example_world\<rparr>]"
    "kafkaProducer example_monitor \<noteq> None \<and> send_ok example_world \<longrightarrow>
       bus m' = bus example_monitor @
         [\<lparr>topic = TOKEN_RAW_CREATED, key = kafka_key example_world (Created r),
           payload = Created r\<rparr>]"
    by blast
  then show ?thesis
    by (simp add: example_monitor_def example_world_def TOKEN_RAW_CREATED_def)
qed

text \<open>
  C8, as stated, fails in one detail: the \<open>initial_supply\<close> of the record is the string
  \<open>"1000000.0"\<close>, not \<open>"1000000"\<close>.
\<close>

theorem C8_initial_supply_counterexample:
  "map_sum id initial_supply
     (snd (handleTokenCreate example_world ''V2'' example_create_event example_monitor))
     = Inr ''1000000.0''
   \<and> map_sum id initial_supply
     (snd (handleTokenCreate example_world ''V2'' example_create_event example_monitor))
     \<noteq> Inr ''1000000''"
proof -
  have "formatToken (bigint_of_string example_world)
      (js_or (arg (args example_create_event) ''totalSupply'')
         (arg_at (args example_create_event) 5)) = Inr ''1000000.0''"
    by (simp add: example_create_args formatToken_def getBigInt_def units_supply)
  then show ?thesis
    by (simp add: handleTokenCreate_def example_provider example_block_time Let_def)
qed

lemma sendToKafka_no_producer: "kafkaProducer m = None \<Longrightarrow> sendToKafka w tp e m = m"
  by (simp add: sendToKafka_def)

lemma sendToKafka_bus_none:
  "kafkaProducer m = None \<Longrightarrow> bus (sendToKafka w tp e m) = bus m"
  by (simp add: sendToKafka_no_producer)

lemma sale_market_cap_frame:
  "kafkaProducer (fst (sale_market_cap w cv ev m)) = kafkaProducer m"
  "bus (fst (sale_market_cap w cv ev m)) = bus m"
  by (simp_all add: sale_market_cap_def getTokenTotalSupply_def Let_def
      split: sum.splits option.splits)

lemma handler_frames:
  assumes "kafkaProducer m = None"
  shows "kafkaProducer (fst (handleTokenCreate w cv ev m)) = None
       \<and> bus (fst (handleTokenCreate w cv ev m)) = bus m"
    and "kafkaProducer (fst (handleTokenPurchase w cv ev m)) = None
       \<and> bus (fst (handleTokenPurchase w cv ev m)) = bus m"
    and "kafkaProducer (fst (handleTokenSale w cv ev m)) = None
       \<and> bus (fst (handleTokenSale w cv ev m)) = bus m"
    and "kafkaProducer (fst (handleLiquidityAdded w cv ev m)) = None
       \<and> bus (fst (handleLiquidityAdded w cv ev m)) = bus m"
proof -
  obtain m1 bt where r: "resolve_block_time w ev m = (m1, bt)" by fastforce
  then have k: "kafkaProducer m1 = None" and b: "bus m1 = bus m"
    using resolve_block_time_frame(3,4) [of w ev m] assms by simp_all
  show "kafkaProducer (fst (handleTokenCreate w cv ev m)) = None
       \<and> bus (fst (handleTokenCreate w cv ev m)) = bus m"
    using assms r k b
    by (simp add: handleTokenCreate_def Let_def sendToKafka_def split: sum.splits)
  obtain mc where p: "purchase_market_cap w cv ev m1 = (m1, mc)"
    using purchase_market_cap_state [of w cv ev m1]
    by (cases "purchase_market_cap w cv ev m1") simp
  show "kafkaProducer (fst (handleTokenPurchase w cv ev m)) = None
       \<and> bus (fst (handleTokenPurchase w cv ev m)) = bus m"
    using assms r k b p
    by (simp add: handleTokenPurchase_def sendToKafka_def split: sum.splits)
  obtain m2 sc where s: "sale_market_cap w cv ev m1 = (m2, sc)" by fastforce
  then have k2: "kafkaProducer m2 = None" and b2: "bus m2 = bus m"
    using sale_market_cap_frame [of w cv ev m1] k b by simp_all
  show "kafkaProducer (fst (handleTokenSale w cv ev m)) = None
       \<and> bus (fst (handleTokenSale w cv ev m)) = bus m"
    using assms r s k2 b2
    by (simp add: handleTokenSale_def sendToKafka_def split: sum.splits)
  show "kafkaProducer (fst (handleLiquidityAdded w cv ev m)) = None
       \<and> bus (fst (handleLiquidityAdded w cv ev m)) = bus m"
    using assms r k b
    by (simp add: handleLiquidityAdded_def Let_def sendToKafka_def
        split: sum.splits option.splits prod.splits)
qed

lemma listener_frame:
  "kafkaProducer m = None \<Longrightarrow>
   kafkaProducer (listener w kind cv ev m) = None \<and> bus (listener w kind cv ev m) = bus m"
  using handler_frames [of m w cv ev]
  by (cases kind) (auto simp: listener_def)

lemma deliver_frame:
  "kafkaProducer m = None \<Longrightarrow>
   kafkaProducer (deliver logs m) = None \<and> bus (deliver logs m) = bus m"
proof (induction logs arbitrary: m)
  case Nil
  then show ?case by simp
next
  case (Cons l logs)
  obtain w kind cv ev where l: "l = (w, kind, cv, ev)" by (cases l)
  from listener_frame [OF Cons.prems, of w kind cv ev] Cons.IH [of "listener w kind cv ev m"]
  show ?case by (simp add: l)
qed

lemma getProvider_producer [simp]: "getProvider (m\<lparr>kafkaProducer := x\<rparr>) = getProvider m"
  by (simp add: getProvider_def)

lemma resolve_block_time_producer:
  "resolve_block_time w ev (m\<lparr>kafkaProducer := x\<rparr>)
     = (fst (resolve_block_time w ev m)\<lparr>kafkaProducer := x\<rparr>, snd (resolve_block_time w ev m))"
  by (simp add: resolve_block_time_def split: prod.splits)

lemma purchase_market_cap_snd:
  "snd (purchase_market_cap w cv ev m) = snd (purchase_market_cap w cv ev m')"
  by (simp add: purchase_market_cap_def Let_def split: sum.splits)

lemma sale_market_cap_snd:
  "snd (sale_market_cap w cv ev m) = snd (sale_market_cap w cv ev m')"
  by (simp add: sale_market_cap_def getTokenTotalSupply_def Let_def
      split: sum.splits option.splits)

lemma handler_records_producer:
  "snd (handleTokenCreate w cv ev (m\<lparr>kafkaProducer := x\<rparr>)) = snd (handleTokenCreate w cv ev m)"
  "snd (handleTokenPurchase w cv ev (m\<lparr>kafkaProducer := x\<rparr>)) = snd (handleTokenPurchase w cv ev m)"
  "snd (handleTokenSale w cv ev (m\<lparr>kafkaProducer := x\<rparr>)) = snd (handleTokenSale w cv ev m)"
  "snd (handleLiquidityAdded w cv ev (m\<lparr>kafkaProducer := x\<rparr>))
     = snd (handleLiquidityAdded w cv ev m)"
proof -
  obtain m1 bt where r: "resolve_block_time w ev m = (m1, bt)" by fastforce
  then have r': "resolve_block_time w ev (m\<lparr>kafkaProducer := x\<rparr>) = (m1\<lparr>kafkaProducer := x\<rparr>, bt)"
    by (simp add: resolve_block_time_producer)
  show "snd (handleTokenCreate w cv ev (m\<lparr>kafkaProducer := x\<rparr>)) = snd (handleTokenCreate w cv ev m)"
    by (simp add: handleTokenCreate_def r r' Let_def split: sum.splits)
  show "snd (handleTokenPurchase w cv ev (m\<lparr>kafkaProducer := x\<rparr>)) = snd (handleTokenPurchase w cv ev m)"
    using purchase_market_cap_snd [of w cv ev "m1\<lparr>kafkaProducer := x\<rparr>" m1]
    by (cases "purchase_market_cap w cv ev m1"; cases "purchase_market_cap w cv ev (m1\<lparr>kafkaProducer := x\<rparr>)")
       (simp add: handleTokenPurchase_def r r' split: sum.splits)
  show "snd (handleTokenSale w cv ev (m\<lparr>kafkaProducer := x\<rparr>)) = snd (handleTokenSale w cv ev m)"
    using sale_market_cap_snd [of w cv ev "m1\<lparr>kafkaProducer := x\<rparr>" m1]
    by (cases "sale_market_cap w cv ev m1"; cases "sale_market_cap w cv ev (m1\<lparr>kafkaProducer := x\<rparr>)")
       (simp add: handleTokenSale_def r r' split: sum.splits)
  show "snd (handleLiquidityAdded w cv ev (m\<lparr>kafkaProducer := x\<rparr>))
     = snd (handleLiquidityAdded w cv ev m)"
    by (simp add: handleLiquidityAdded_def r r' Let_def split: sum.splits option.splits prod.splits)
qed

text \<open>
  C10. When the producer fails to connect at start-up, \<open>initializeKafkaProducer\<close> leaves it
  \<open>null\<close>. From then on, whatever logs arrive: the producer is still \<open>null\<close> (nothing
  initialises it again), nothing has been published, a call of \<open>sendToKafka\<close> returns
  having changed nothing, and each handler returns the same record, or raises the same
  exception, as it would with a connected producer.
\<close>

theorem C10_startup_producer_failure:
  "kafkaProducer (initializeKafkaProducer False m0) = None
   \<and> kafkaProducer (deliver logs (initializeKafkaProducer False m0)) = None
   \<and> bus (deliver logs (initializeKafkaProducer False m0)) = bus m0
   \<and> sendToKafka w tp e (deliver logs (initializeKafkaProducer False m0))
       = deliver logs (initializeKafkaProducer False m0)
   \<and> snd (handleTokenCreate w cv ev (deliver logs (initializeKafkaProducer False m0)))
       = snd (handleTokenCreate w cv ev
               ((deliver logs (initializeKafkaProducer False m0))\<lparr>kafkaProducer := Some ()\<rparr>))
   \<and> snd (handleTokenPurchase w cv ev (deliver logs (initializeKafkaProducer False m0)))
       = snd (handleTokenPurchase w cv ev
               ((deliver logs (initializeKafkaProducer False m0))\<lparr>kafkaProducer := Some ()\<rparr>))
   \<and> snd (handleTokenSale w cv ev (deliver logs (initializeKafkaProducer False m0)))
       = snd (handleTokenSale w cv ev
               ((deliver logs (initializeKafkaProducer False m0))\<lparr>kafkaProducer := Some ()\<rparr>))
   \<and> snd (handleLiquidityAdded w cv ev (deliver logs (initializeKafkaProducer False m0)))
       = snd (handleLiquidityAdded w cv ev
               ((deliver logs (initializeKafkaProducer False m0))\<lparr>kafkaProducer := Some ()\<rparr>))"
proof -
  let ?m = "initializeKafkaProducer False m0"
  have none: "kafkaProducer ?m = None" and b0: "bus ?m = bus m0"
    by (simp_all add: initializeKafkaProducer_def)
  from deliver_frame [OF none, of logs] b0
  have k: "kafkaProducer (deliver logs ?m) = None" and b: "bus (deliver logs ?m) = bus m0"
    by simp_all
  from none k b sendToKafka_no_producer [OF k, of w tp e] show ?thesis
    by (simp add: handler_records_producer)
qed

lemma format_supply: "formatToken bos (Big 1000000000000000000000000) = Inr ''1000000.0''"
  by (simp add: formatToken_def getBigInt_def units_supply)

lemma example_create_supply:
  "formatToken (bigint_of_string example_world)
      (js_or (arg (args example_create_event) ''totalSupply'')
         (arg_at (args example_create_event) 5)) = Inr ''1000000.0''"
  by (simp add: example_create_args formatToken_def getBigInt_def units_supply)

lemma example_create_fields:
  "blockNumber example_create_event = 34000000"
  "transactionHash example_create_event
     = Str ''0x5151515151515151515151515151515151515151515151515151515151515151''"
  "now_kafka example_world = 1700000005000" "now_created example_world = 1700000005000"
  "send_ok example_world" "kafkaProducer example_monitor = Some ()"
  "bus example_monitor = []" "createdTokens example_monitor = []"
  by (simp_all add: example_create_event_def example_world_def example_monitor_def)

lemma example_create_result:
  "handleTokenCreate example_world ''V2'' example_create_event example_monitor =
     (example_monitor
        \<lparr>createdTokens :=
           [\<lparr>created_token_mint = Str ''0xBBBBBBBBBBBBBBBBBBBBBBBBBBBBBBBBBBBBBBBB'',
             created_at = 1700000005000\<rparr>],
         bus := [\<lparr>topic = ''token.raw.created'',
                  key = Str ''0xBBBBBBBBBBBBBBBBBBBBBBBBBBBBBBBBBBBBBBBB'',
                  payload = Created example_create_record\<rparr>]\<rparr>,
      Inr example_create_record)"
proof -
  have tok: "js_or (arg (args example_create_event) ''token'')
      (arg_at (args example_create_event) (Suc 0)) = Str ''0xBBBBBBBBBBBBBBBBBBBBBBBBBBBBBBBBBBBBBBBB''"
    using example_create_args(2) by simp
  have key: "kafka_key example_world (Created example_create_record)
      = Str ''0xBBBBBBBBBBBBBBBBBBBBBBBBBBBBBBBBBBBBBBBB''"
    by (simp add: kafka_key_def event_token_mint_def example_create_record_def js_or_def
        truthy_def)
  show ?thesis
    by (simp add: handleTokenCreate_def example_provider example_block_time
        format_supply Let_def example_create_args tok example_create_fields
        generateKafkaTimestamp_def iso_1700000005000 sendToKafka_def
        key [unfolded example_create_record_def] example_create_record_def
        TOKEN_RAW_CREATED_def)
qed

text \<open>
  C7, as stated, fails for \<open>sendToKafka\<close>, the publish function that the handlers use:
  the record published for the scenario's \<open>TokenCreate\<close> log carries a transaction
  signature, yet its key is the token address.
\<close>

theorem C7_key_is_token_mint_counterexample:
  "map key (bus (fst (handleTokenCreate example_world ''V2'' example_create_event
       example_monitor)))
     = [Str ''0xBBBBBBBBBBBBBBBBBBBBBBBBBBBBBBBBBBBBBBBB'']
   \<and> map (\<lambda>msg. event_signature (payload msg))
        (bus (fst (handleTokenCreate example_world ''V2'' example_create_event
           example_monitor)))
     = [Str ''0x5151515151515151515151515151515151515151515151515151515151515151'']"
  by (simp add: example_create_result event_signature_def example_create_record_def)

text \<open>
  C7, amended. A record published through \<open>sendToKafka\<close> is keyed by the event's
  \<open>token_mint\<close>; only when that is absent is the key the transaction signature, and only
  when both are absent is it a random key (the text of \<open>Math.random()\<close>, without the topic).
  A record published through \<open>sendRawTokenEvent\<close> is keyed by the transaction signature, and
  only when the signature is absent by the topic-qualified key \<open>topic-now\<close>, with \<open>now\<close> the
  clock reading in milliseconds.
\<close>

theorem C7_message_keys:
  "(kafkaProducer m \<noteq> None \<and> send_ok w \<longrightarrow>
      bus (sendToKafka w tp e m) = bus m @
        [\<lparr>topic = tp,
          key = (if truthy (event_token_mint e) then event_token_mint e
                 else if truthy (event_signature e) then event_signature e
                 else Str (random_text w)),
          payload = e\<rparr>])
   \<and> ((producerInstance p \<noteq> None \<or> connect_ok) \<and> send_succeeds \<longrightarrow>
      sent (sendRawTokenEvent connect_ok send_succeeds now tp e p) = sent p @
        [\<lparr>topic = tp,
          key = (if truthy (event_signature e) then event_signature e
                 else Str (tp @ ''-'' @ int_string now)),
          payload = e\<rparr>])"
  by (auto simp: sendToKafka_def kafka_key_def js_or_def sendRawTokenEvent_def raw_key_def
      split: option.splits)

theorem C7_message_keys_witness:
  "bus (sendToKafka example_world ''token.raw.created'' (Created example_create_record)
        example_monitor)
     = [\<lparr>topic = ''token.raw.created'',
         key = Str ''0xBBBBBBBBBBBBBBBBBBBBBBBBBBBBBBBBBBBBBBBB'',
         payload = Created example_create_record\<rparr>]
   \<and> sent (sendRawTokenEvent True True 1700000005000 ''token.raw.created''
        (Created (example_create_record\<lparr>signature := Undefined\<rparr>))
        \<lparr>producerInstance = None, sent = []\<rparr>)
     = [\<lparr>topic = ''token.raw.created'',
         key = Str ''token.raw.created-1700000005000'',
         payload = Created (example_create_record\<lparr>signature := Undefined\<rparr>)\<rparr>]
   \<and> sent (sendRawTokenEvent True True 1700000005000 ''token.raw.created''
        (Created example_create_record) \<lparr>producerInstance = None, sent = []\<rparr>)
     = [\<lparr>topic = ''token.raw.created'',
         key = Str ''0x5151515151515151515151515151515151515151515151515151515151515151'',
         payload = Created example_create_record\<rparr>]"
proof -
  have now: "int_string 1700000005000 = ''1700000005000''"
    by (simp add: int_string_def dec_string.simps digit_char_def)
  have f: "event_token_mint (Created example_create_record)
        = Str ''0xBBBBBBBBBBBBBBBBBBBBBBBBBBBBBBBBBBBBBBBB''"
      "event_signature (Created example_create_record)
        = Str ''0x5151515151515151515151515151515151515151515151515151515151515151''"
      "event_signature (Created (example_create_record\<lparr>signature := Undefined\<rparr>)) = Undefined"
    by (simp_all add: event_token_mint_def event_signature_def example_create_record_def)
  from C7_message_keys [of example_monitor example_world "''token.raw.created''"
      "Created example_create_record" "\<lparr>producerInstance = None, sent = []\<rparr>" True True
      1700000005000]
    C7_message_keys [of example_monitor example_world "''token.raw.created''"
      "Created (example_create_record\<lparr>signature := Undefined\<rparr>)"
      "\<lparr>producerInstance = None, sent = []\<rparr>" True True 1700000005000]
  show ?thesis
    by (simp add: example_create_fields f truthy_def now)
qed

section \<open>Decoding a log twice\<close>

text \<open>
  What a lookup returns does not depend on the cache it starts from once the block is
  missing from it, and a lookup repeated in the cache that the first one left returns what
  the first one returned.
\<close>


lemma fst_after: "fst (after es out) = fst out"
  by (cases out) (simp add: after_def)

lemma fetch_loop_value:
  "fst (fetch_loop prov b R a mgr) = fst (fetch_loop prov b R a mgr')"
proof (induction prov b R a mgr rule: fetch_loop.induct)
  case (1 prov blockNumber maxRetries attempt mgr)
  note L = fetch_loop.simps [of prov blockNumber maxRetries attempt mgr]
  note R = fetch_loop.simps [of prov blockNumber maxRetries attempt mgr']
  show ?case
  proof (cases "attempt \<le> maxRetries")
    case False
    then show ?thesis by (simp add: L R)
  next
    case le: True
    show ?thesis
    proof (cases "prov attempt")
      case (Block ts)
      then show ?thesis using le by (simp add: L R Let_def)
    next
      case NoBlock
      show ?thesis
      proof (cases "attempt < maxRetries")
        case True
        with "1.IH"(1) [OF le NoBlock True] show ?thesis
          using le NoBlock by (simp add: L R fst_after)
      next
        case False
        then show ?thesis unfolding L R using le NoBlock by simp
      qed
    next
      case Throws
      show ?thesis
      proof (cases "attempt < maxRetries")
        case True
        with "1.IH"(2) [OF le Throws True] show ?thesis
          using le Throws by (simp add: L R fst_after)
      next
        case False
        then show ?thesis unfolding L R using le Throws by simp
      qed
    qed
  qed
qed

lemma fetch_loop_store:
  "fetch_loop prov b R a mgr = (Some t, mgr', tr) \<Longrightarrow> mgr' = cache_store b t mgr"
proof (induction prov b R a mgr arbitrary: tr rule: fetch_loop.induct)
  case (1 prov blockNumber maxRetries attempt mgr)
  from "1.prems" show ?case
    apply (subst (asm) fetch_loop.simps)
    using "1.IH"
    by (auto simp: after_def Let_def split: getBlock_result.splits prod.splits if_splits)
qed

lemma fetch_loop_none:
  "fetch_loop prov b R a mgr = (None, mgr', tr) \<Longrightarrow> mgr' = mgr"
proof (induction prov b R a mgr arbitrary: tr rule: fetch_loop.induct)
  case (1 prov blockNumber maxRetries attempt mgr)
  from "1.prems" show ?case
    apply (subst (asm) fetch_loop.simps)
    using "1.IH"
    by (auto simp: after_def Let_def split: getBlock_result.splits prod.splits if_splits)
qed

lemma cache_store_get:
  "cache_has (cache_store b t mgr) b \<Longrightarrow> cache_get (cache_store b t mgr) b = Some t"
proof -
  assume h: "cache_has (cache_store b t mgr) b"
  let ?m = "cache_set b t mgr"
  have set: "cache_get ?m b = Some t"
    by (simp add: cache_get_def cache_set_def AList.update_conv')
  show ?thesis
  proof (cases "getCacheSize ?m > maxCacheSize ?m")
    case False
    then show ?thesis using set by (simp add: cache_store_def cache_cleanup_def)
  next
    case True
    let ?k = "Min (set (cache_keys ?m))"
    have bt: "blockTimestamps (cache_store b t mgr) = AList.delete ?k (blockTimestamps ?m)"
      using True by (simp add: cache_store_def cache_cleanup_def)
    have "?k \<noteq> b"
    proof
      assume "?k = b"
      then have "b \<notin> fst ` set (blockTimestamps (cache_store b t mgr))"
        unfolding bt using AList.delete_notin_dom [of b "blockTimestamps ?m"] by simp
      with h show False by (simp add: cache_has_def cache_keys_def)
    qed
    then show ?thesis using set
      by (simp add: cache_get_def bt)
  qed
qed

lemma lookup_stable:
  "fst (getBlockTimestamp prov b R (fst (snd (getBlockTimestamp prov b R mgr))))
     = fst (getBlockTimestamp prov b R mgr)"
proof (cases "cache_has mgr b")
  case True
  then show ?thesis by (simp add: getBlockTimestamp_def)
next
  case False
  obtain r mgr' tr where f: "fetch_loop prov b R 1 mgr = (r, mgr', tr)"
    by (cases "fetch_loop prov b R 1 mgr") auto
  have val: "fst (fetch_loop prov b R 1 mgr') = r"
    using fetch_loop_value [of prov b R 1 mgr' mgr] f by simp
  show ?thesis
  proof (cases r)
    case None
    with f have "mgr' = mgr" by (auto dest: fetch_loop_none)
    then show ?thesis using False f by (simp add: getBlockTimestamp_def)
  next
    case (Some t)
    with f have st: "mgr' = cache_store b t mgr" by (auto dest: fetch_loop_store)
    show ?thesis
    proof (cases "cache_has mgr' b")
      case True
      then show ?thesis using False f Some cache_store_get [of b t mgr] st
        by (simp add: getBlockTimestamp_def)
    next
      case no: False
      then show ?thesis using False f val by (simp add: getBlockTimestamp_def)
    qed
  qed
qed

lemma sale_market_cap_state_frame:
  "rpcProvider (fst (sale_market_cap w cv ev m)) = rpcProvider m"
  "blockTimeManager (fst (sale_market_cap w cv ev m)) = blockTimeManager m"
  by (simp_all add: sale_market_cap_def getTokenTotalSupply_def Let_def
      split: sum.splits option.splits)

lemma resolve_block_time_manager:
  "blockTimeManager (fst (resolve_block_time w ev m))
     = fst (snd (getBlockTimestamp_default (getBlock w) (blockNumber ev) (blockTimeManager m)))"
  by (simp add: resolve_block_time_def split: prod.splits)

lemma resolve_block_time_value:
  "snd (resolve_block_time w ev m)
     = block_time_of
         (fst (getBlockTimestamp_default (getBlock w) (blockNumber ev) (blockTimeManager m)))
         (now_block_time w)"
  by (simp add: resolve_block_time_def split: prod.splits)

lemma handle_event_state:
  "rpcProvider (fst (handle_event w kind cv ev m)) = rpcProvider m"
  "blockTimeManager (fst (handle_event w kind cv ev m)) = blockTimeManager m
   \<or> blockTimeManager (fst (handle_event w kind cv ev m))
       = blockTimeManager (fst (resolve_block_time w ev m))"
proof -
  obtain m1 bt where r: "resolve_block_time w ev m = (m1, bt)" by fastforce
  then have f: "rpcProvider m1 = rpcProvider m"
    using resolve_block_time_frame(5) [of w ev m] by simp
  obtain mp where p: "purchase_market_cap w cv ev m1 = (m1, mp)"
    using purchase_market_cap_state [of w cv ev m1]
    by (cases "purchase_market_cap w cv ev m1") simp
  obtain m2 ms where s: "sale_market_cap w cv ev m1 = (m2, ms)" by fastforce
  then have f2: "rpcProvider m2 = rpcProvider m" "blockTimeManager m2 = blockTimeManager m1"
    using sale_market_cap_state_frame [of w cv ev m1] f by simp_all
  show "rpcProvider (fst (handle_event w kind cv ev m)) = rpcProvider m"
    using r f p s f2
    by (cases kind)
       (simp_all add: handle_event_def handleTokenCreate_def handleTokenPurchase_def
          handleTokenSale_def handleLiquidityAdded_def Let_def sendToKafka_frame
          split: sum.splits prod.splits option.splits)
  show "blockTimeManager (fst (handle_event w kind cv ev m)) = blockTimeManager m
   \<or> blockTimeManager (fst (handle_event w kind cv ev m))
       = blockTimeManager (fst (resolve_block_time w ev m))"
    using r p s f2
    by (cases kind)
       (simp_all add: handle_event_def handleTokenCreate_def handleTokenPurchase_def
          handleTokenSale_def handleLiquidityAdded_def Let_def sendToKafka_frame
          split: sum.splits prod.splits option.splits)
qed

lemma getProvider_cong: "rpcProvider m' = rpcProvider m \<Longrightarrow> getProvider m' = getProvider m"
  by (simp add: getProvider_def)

lemma resolved_again:
  assumes "getBlock w2 = getBlock w1"
    and "blockTimeManager m2 = blockTimeManager m1
         \<or> blockTimeManager m2 = blockTimeManager (fst (resolve_block_time w1 ev m1))"
    and "now_block_time w2 = now_block_time w1
         \<or> timestamp_resolved (fst (getBlockTimestamp_default (getBlock w1) (blockNumber ev)
               (blockTimeManager m1)))"
  shows "snd (resolve_block_time w2 ev m2) = snd (resolve_block_time w1 ev m1)"
proof -
  let ?look = "\<lambda>mgr. fst (getBlockTimestamp_default (getBlock w1) (blockNumber ev) mgr)"
  have "?look (blockTimeManager m2) = ?look (blockTimeManager m1)"
    using assms(2) lookup_stable [of "getBlock w1" "blockNumber ev" 3 "blockTimeManager m1"]
    by (auto simp: resolve_block_time_manager getBlockTimestamp_default_def)
  then show ?thesis
    using assms(1,3)
    by (auto simp: resolve_block_time_value block_time_of_def timestamp_resolved_def
        split: option.splits)
qed

lemma market_caps_worlds:
  assumes "same_answers w1 w2"
  shows "snd (purchase_market_cap w2 cv ev m') = snd (purchase_market_cap w1 cv ev m)"
    and "snd (sale_market_cap w2 cv ev m') = snd (sale_market_cap w1 cv ev m)"
  using assms
  by (simp_all add: purchase_market_cap_def sale_market_cap_def getTokenTotalSupply_def Let_def
      same_answers_def split: sum.splits option.splits)

lemma tradeData_worlds:
  assumes "same_answers w1 w2"
    and "(bt2 = bt1 \<and> (now_kafka w2 = now_kafka w1 \<or> g = kafka_timestamp_update (\<lambda>_. [])))
         \<or> g = (\<lambda>r. r\<lparr>block_time := 0, kafka_timestamp := []\<rparr>)"
  shows "map_sum id g (tradeData w2 dir cv ev bt2 mc) = map_sum id g (tradeData w1 dir cv ev bt1 mc)"
  using assms by (auto simp: tradeData_def same_answers_def split: sum.splits)

lemma trade_handlers_snd:
  assumes "getProvider m = Inr h"
  shows "snd (handleTokenPurchase w cv ev m) =
           (case snd (purchase_market_cap w cv ev (fst (resolve_block_time w ev m))) of
              Inl e \<Rightarrow> Inl e
            | Inr v \<Rightarrow> tradeData w ''buy'' cv ev (snd (resolve_block_time w ev m)) v)"
    and "snd (handleTokenSale w cv ev m) =
           (case snd (sale_market_cap w cv ev (fst (resolve_block_time w ev m))) of
              Inl e \<Rightarrow> Inl e
            | Inr v \<Rightarrow> tradeData w ''sell'' cv ev (snd (resolve_block_time w ev m)) v)"
  using assms
  by (simp_all add: handleTokenPurchase_def handleTokenSale_def split: sum.splits prod.splits)

lemma status_Inl:
  "connection_status m2 = connection_status m1 \<Longrightarrow> getProvider m1 = Inl e \<Longrightarrow>
   getProvider m2 = Inl e"
  by (cases "getProvider m2") (auto simp: connection_status_def)

lemma status_Inr:
  "connection_status m2 = connection_status m1 \<Longrightarrow> getProvider m1 = Inr h \<Longrightarrow>
   \<exists>h2. getProvider m2 = Inr h2"
  by (cases "getProvider m2") (auto simp: connection_status_def)

lemma create_twice:
  assumes "same_answers w1 w2" and "connection_status m2 = connection_status m1"
    and "(snd (resolve_block_time w2 ev m2) = snd (resolve_block_time w1 ev m1)
           \<and> (now_kafka w2 = now_kafka w1 \<or> g = kafka_timestamp_update (\<lambda>_. [])))
         \<or> g = (\<lambda>r. r\<lparr>block_time := 0, kafka_timestamp := []\<rparr>)"
  shows "map_sum id g (snd (handleTokenCreate w2 cv ev m2))
         = map_sum id g (snd (handleTokenCreate w1 cv ev m1))"
proof (cases "getProvider m1")
  case (Inl e)
  with assms(2) show ?thesis by (auto simp: handleTokenCreate_def dest: status_Inl)
next
  case (Inr h)
  with assms(2) obtain h2 where p2: "getProvider m2 = Inr h2" by (auto dest: status_Inr)
  obtain x1 bt1 where r1: "resolve_block_time w1 ev m1 = (x1, bt1)" by fastforce
  obtain x2 bt2 where r2: "resolve_block_time w2 ev m2 = (x2, bt2)" by fastforce
  from assms(1,3) Inr p2 show ?thesis
    by (auto simp: handleTokenCreate_def r1 r2 Let_def same_answers_def split: sum.splits)
qed

lemma liquidity_twice:
  assumes "same_answers w1 w2" and "connection_status m2 = connection_status m1"
    and "(snd (resolve_block_time w2 ev m2) = snd (resolve_block_time w1 ev m1)
           \<and> (now_kafka w2 = now_kafka w1 \<or> g = kafka_timestamp_update (\<lambda>_. [])))
         \<or> g = (\<lambda>r. r\<lparr>block_time := 0, kafka_timestamp := []\<rparr>)"
  shows "map_sum id g (snd (handleLiquidityAdded w2 cv ev m2))
         = map_sum id g (snd (handleLiquidityAdded w1 cv ev m1))"
proof (cases "getProvider m1")
  case (Inl e)
  with assms(2) show ?thesis by (auto simp: handleLiquidityAdded_def dest: status_Inl)
next
  case (Inr h)
  with assms(2) obtain h2 where p2: "getProvider m2 = Inr h2" by (auto dest: status_Inr)
  obtain x1 bt1 where r1: "resolve_block_time w1 ev m1 = (x1, bt1)" by fastforce
  obtain x2 bt2 where r2: "resolve_block_time w2 ev m2 = (x2, bt2)" by fastforce
  from assms(1,3) Inr p2 show ?thesis
    by (auto simp: handleLiquidityAdded_def r1 r2 Let_def same_answers_def
        split: sum.splits option.splits prod.splits)
qed

lemma purchase_twice:
  assumes "same_answers w1 w2" and "connection_status m2 = connection_status m1"
    and "(snd (resolve_block_time w2 ev m2) = snd (resolve_block_time w1 ev m1)
           \<and> (now_kafka w2 = now_kafka w1 \<or> g = kafka_timestamp_update (\<lambda>_. [])))
         \<or> g = (\<lambda>r. r\<lparr>block_time := 0, kafka_timestamp := []\<rparr>)"
  shows "map_sum id g (snd (handleTokenPurchase w2 cv ev m2))
         = map_sum id g (snd (handleTokenPurchase w1 cv ev m1))"
proof (cases "getProvider m1")
  case (Inl e)
  with assms(2) show ?thesis by (auto simp: handleTokenPurchase_def dest: status_Inl)
next
  case (Inr h)
  with assms(2) obtain h2 where p2: "getProvider m2 = Inr h2" by (auto dest: status_Inr)
  have mc: "snd (purchase_market_cap w2 cv ev (fst (resolve_block_time w2 ev m2)))
      = snd (purchase_market_cap w1 cv ev (fst (resolve_block_time w1 ev m1)))"
    by (rule market_caps_worlds [OF assms(1)])
  show ?thesis
    unfolding trade_handlers_snd(1) [OF Inr] trade_handlers_snd(1) [OF p2] mc
    by (cases "snd (purchase_market_cap w1 cv ev (fst (resolve_block_time w1 ev m1)))")
       (simp_all add: tradeData_worlds [OF assms(1,3)])
qed

lemma sale_twice:
  assumes "same_answers w1 w2" and "connection_status m2 = connection_status m1"
    and "(snd (resolve_block_time w2 ev m2) = snd (resolve_block_time w1 ev m1)
           \<and> (now_kafka w2 = now_kafka w1 \<or> g = kafka_timestamp_update (\<lambda>_. [])))
         \<or> g = (\<lambda>r. r\<lparr>block_time := 0, kafka_timestamp := []\<rparr>)"
  shows "map_sum id g (snd (handleTokenSale w2 cv ev m2))
         = map_sum id g (snd (handleTokenSale w1 cv ev m1))"
proof (cases "getProvider m1")
  case (Inl e)
  with assms(2) show ?thesis by (auto simp: handleTokenSale_def dest: status_Inl)
next
  case (Inr h)
  with assms(2) obtain h2 where p2: "getProvider m2 = Inr h2" by (auto dest: status_Inr)
  have mc: "snd (sale_market_cap w2 cv ev (fst (resolve_block_time w2 ev m2)))
      = snd (sale_market_cap w1 cv ev (fst (resolve_block_time w1 ev m1)))"
    by (rule market_caps_worlds [OF assms(1)])
  show ?thesis
    unfolding trade_handlers_snd(2) [OF Inr] trade_handlers_snd(2) [OF p2] mc
    by (cases "snd (sale_market_cap w1 cv ev (fst (resolve_block_time w1 ev m1)))")
       (simp_all add: tradeData_worlds [OF assms(1,3)])
qed

lemma lift_eq:
  assumes "map_sum id g x = map_sum id g y"
  shows "map_sum (\<lambda>e. e) (\<lambda>r. C (g r)) x = map_sum (\<lambda>e. e) (\<lambda>r. C (g r)) y"
  using assms by (cases x; cases y) auto

lemma handle_event_twice:
  assumes "same_answers w1 w2" and "connection_status m2 = connection_status m1"
    and c: "snd (resolve_block_time w2 ev m2) = snd (resolve_block_time w1 ev m1)"
  shows "map_sum id without_kafka_timestamp (snd (handle_event w2 kind cv ev m2))
         = map_sum id without_kafka_timestamp (snd (handle_event w1 kind cv ev m1))"
    and "now_kafka w2 = now_kafka w1 \<Longrightarrow>
         snd (handle_event w2 kind cv ev m2) = snd (handle_event w1 kind cv ev m1)"
proof -
  have blank: "(snd (resolve_block_time w2 ev m2) = snd (resolve_block_time w1 ev m1)
           \<and> (now_kafka w2 = now_kafka w1
                \<or> kafka_timestamp_update (\<lambda>_. []) = kafka_timestamp_update (\<lambda>_. [])))
         \<or> kafka_timestamp_update (\<lambda>_. []) = (\<lambda>r. r\<lparr>block_time := 0, kafka_timestamp := []\<rparr>)"
    using c by simp
  note b = create_twice [OF assms(1,2) blank, of cv, THEN lift_eq, where C = Created]
    purchase_twice [OF assms(1,2) blank, of cv, THEN lift_eq, where C = Purchased]
    sale_twice [OF assms(1,2) blank, of cv, THEN lift_eq, where C = Sold]
    liquidity_twice [OF assms(1,2) blank, of cv, THEN lift_eq, where C = Migrated]
  show "map_sum id without_kafka_timestamp (snd (handle_event w2 kind cv ev m2))
         = map_sum id without_kafka_timestamp (snd (handle_event w1 kind cv ev m1))"
    using b
    by (cases kind)
       (simp_all add: handle_event_def without_kafka_timestamp_def sum.map_comp comp_def)
  assume k: "now_kafka w2 = now_kafka w1"
  have same: "(snd (resolve_block_time w2 ev m2) = snd (resolve_block_time w1 ev m1)
           \<and> (now_kafka w2 = now_kafka w1 \<or> id = kafka_timestamp_update (\<lambda>_. [])))
         \<or> id = (\<lambda>r. r\<lparr>block_time := 0, kafka_timestamp := []\<rparr>)"
    using c k by simp
  note i = create_twice [OF assms(1,2) same, of cv] purchase_twice [OF assms(1,2) same, of cv]
    sale_twice [OF assms(1,2) same, of cv] liquidity_twice [OF assms(1,2) same, of cv]
  show "snd (handle_event w2 kind cv ev m2) = snd (handle_event w1 kind cv ev m1)"
    using i by (cases kind) (simp_all add: handle_event_def sum.map_id0)
qed

lemma handle_event_twice_times:
  assumes "same_answers w1 w2" and "connection_status m2 = connection_status m1"
  shows "map_sum id without_times (snd (handle_event w2 kind cv ev m2))
         = map_sum id without_times (snd (handle_event w1 kind cv ev m1))"
proof -
  have c: "(snd (resolve_block_time w2 ev m2) = snd (resolve_block_time w1 ev m1)
           \<and> (now_kafka w2 = now_kafka w1
                \<or> (\<lambda>r. r\<lparr>block_time := 0, kafka_timestamp := []\<rparr>) = kafka_timestamp_update (\<lambda>_. [])))
         \<or> (\<lambda>r. r\<lparr>block_time := 0, kafka_timestamp := []\<rparr>)
             = (\<lambda>r. r\<lparr>block_time := 0, kafka_timestamp := []\<rparr>)"
    by simp
  note b = create_twice [OF assms c, of cv, THEN lift_eq, where C = Created]
    purchase_twice [OF assms c, of cv, THEN lift_eq, where C = Purchased]
    sale_twice [OF assms c, of cv, THEN lift_eq, where C = Sold]
    liquidity_twice [OF assms c, of cv, THEN lift_eq, where C = Migrated]
  show ?thesis
    using b
    by (cases kind)
       (simp_all add: handle_event_def without_times_def sum.map_comp comp_def)
qed


lemma handle_event_block_time:
  assumes "snd (handle_event w kind cv ev m) = Inr r"
  shows "event_block_time r = snd (resolve_block_time w ev m)"
proof (cases "getProvider m")
  case (Inl e)
  with assms show ?thesis
    by (cases kind)
       (auto simp: handle_event_def handleTokenCreate_def handleTokenPurchase_def
          handleTokenSale_def handleLiquidityAdded_def)
next
  case (Inr h)
  show ?thesis
  proof (cases kind)
    case TokenCreate
    with assms Inr show ?thesis
      by (auto simp: handle_event_def handleTokenCreate_def event_block_time_def Let_def
          split: sum.splits prod.splits)
  next
    case TokenPurchase
    with assms trade_handlers_snd(1) [OF Inr, of w cv ev] show ?thesis
      by (auto simp: handle_event_def event_block_time_def tradeData_def
          split: sum.splits)
  next
    case TokenSale
    with assms trade_handlers_snd(2) [OF Inr, of w cv ev] show ?thesis
      by (auto simp: handle_event_def event_block_time_def tradeData_def
          split: sum.splits)
  next
    case LiquidityAdded
    with assms Inr show ?thesis
      by (auto simp: handle_event_def handleLiquidityAdded_def event_block_time_def Let_def
          split: sum.splits prod.splits)
  qed
qed

lemma fresh_lookup:
  "getBlockTimestamp_default (getBlock fetching_world) (blockNumber example_create_event)
     (blockTimeManager fresh_monitor)
   = (Some 1700000000000,
      \<lparr>blockTimestamps = [(34000000, 1700000000000)], maxCacheSize = 100\<rparr>,
      [Fetch 34000000])"
proof -
  have "fetch_loop (\<lambda>k. Block 1700000000) 34000000 3 1 new_BlockTimeManager =
     (Some (1700000000 * 1000), cache_store 34000000 (1700000000 * 1000) new_BlockTimeManager,
      concat (map (\<lambda>k. [Fetch 34000000, Sleep (calculateBackoffDelay_default k)]) [1..1 - 1])
        @ [Fetch 34000000])"
    by (rule fetch_loop_success [where j = 1]) auto
  then show ?thesis
    by (simp add: getBlockTimestamp_default_def getBlockTimestamp_def cache_has_def
        cache_keys_def fresh_monitor_def fetching_world_def example_world_def
        example_create_event_def new_BlockTimeManager_def cache_store_def cache_set_def
        cache_cleanup_def getCacheSize_def)
qed

lemma fresh_lookup_unknown:
  "fst (getBlockTimestamp_default (getBlock example_world) (blockNumber example_create_event)
     (blockTimeManager fresh_monitor)) = None"
proof -
  have "fetch_loop (\<lambda>k. NoBlock) 34000000 3 1 new_BlockTimeManager =
     (None, new_BlockTimeManager, concat (map (\<lambda>k. Fetch 34000000 #
         (if k < 3 then [Sleep (calculateBackoffDelay_default k)] else [])) [1..3]))"
    by (rule fetch_loop_all_fail) (simp add: is_failure_def)
  then show ?thesis
    by (simp add: getBlockTimestamp_default_def getBlockTimestamp_def cache_has_def
        cache_keys_def fresh_monitor_def example_world_def example_create_event_def
        new_BlockTimeManager_def)
qed

lemma fresh_block_time:
  "snd (resolve_block_time fetching_world example_create_event fresh_monitor) = 1700000000"
  "snd (resolve_block_time example_world example_create_event fresh_monitor) = 1700000005"
  "blockTimeManager (fst (resolve_block_time fetching_world example_create_event fresh_monitor))
     = blockTimeManager example_monitor"
proof -
  show "snd (resolve_block_time fetching_world example_create_event fresh_monitor) = 1700000000"
    unfolding resolve_block_time_value fresh_lookup by (simp add: block_time_of_def)
  show "snd (resolve_block_time example_world example_create_event fresh_monitor) = 1700000005"
    unfolding resolve_block_time_value fresh_lookup_unknown
    by (simp add: block_time_of_def example_world_def)
  show "blockTimeManager (fst (resolve_block_time fetching_world example_create_event
      fresh_monitor)) = blockTimeManager example_monitor"
    unfolding resolve_block_time_manager fresh_lookup by (simp add: example_monitor_def)
qed

lemma fresh_provider: "getProvider fresh_monitor = Inr 0"
  using example_provider by (simp add: getProvider_def fresh_monitor_def)

lemma fresh_create_record:
  "snd (handleTokenCreate fetching_world ''V2'' example_create_event fresh_monitor)
     = Inr example_create_record"
  "snd (handleTokenCreate example_world ''V2'' example_create_event fresh_monitor)
     = Inr (example_create_record\<lparr>block_time := 1700000005\<rparr>)"
proof -
  have w: "bigint_of_string fetching_world = bigint_of_string example_world"
    "now_kafka fetching_world = 1700000005000"
    by (simp_all add: fetching_world_def example_world_def)
  have tok: "js_or (arg (args example_create_event) ''token'')
      (arg_at (args example_create_event) (Suc 0)) = Str ''0xBBBBBBBBBBBBBBBBBBBBBBBBBBBBBBBBBBBBBBBB''"
    using example_create_args(2) by simp
  obtain m1 where r1: "resolve_block_time fetching_world example_create_event fresh_monitor
      = (m1, 1700000000)"
    using fresh_block_time(1) by (cases "resolve_block_time fetching_world example_create_event
      fresh_monitor") simp
  obtain m2 where r2: "resolve_block_time example_world example_create_event fresh_monitor
      = (m2, 1700000005)"
    using fresh_block_time(2) by (cases "resolve_block_time example_world example_create_event
      fresh_monitor") simp
  show "snd (handleTokenCreate fetching_world ''V2'' example_create_event fresh_monitor)
     = Inr example_create_record"
    by (simp add: handleTokenCreate_def fresh_provider r1 format_supply Let_def
        example_create_args tok example_create_fields w generateKafkaTimestamp_def
        iso_1700000005000 example_create_record_def)
  show "snd (handleTokenCreate example_world ''V2'' example_create_event fresh_monitor)
     = Inr (example_create_record\<lparr>block_time := 1700000005\<rparr>)"
    by (simp add: handleTokenCreate_def fresh_provider r2 format_supply Let_def
        example_create_args tok example_create_fields generateKafkaTimestamp_def
        iso_1700000005000 example_create_record_def)
qed


text \<open>
  C9, as stated, fails, in two ways. The same log, decoded in the same state by two
  invocations that read the wall clock one millisecond apart, gives two different records
  (they differ in \<open>kafka_timestamp\<close>). And the state of the block cache, which is mutable
  state of the module that the decoder reads and writes, affects the record: the same log
  with the same provider answers and the same clock readings gives \<open>block_time\<close> 1700000000
  when the cache holds the block and 1700000005 (the wall clock) when the cache is empty
  and the provider does not know the block.
\<close>

theorem C9_clock_and_cache_counterexample:
  "snd (handleTokenCreate example_world ''V2'' example_create_event example_monitor)
     \<noteq> snd (handleTokenCreate (example_world\<lparr>now_kafka := 1700000005001\<rparr>) ''V2''
            example_create_event example_monitor)
   \<and> map_sum id kafka_timestamp
        (snd (handleTokenCreate example_world ''V2'' example_create_event example_monitor))
     = Inr ''2023-11-14T22:13:25.000Z''
   \<and> map_sum id kafka_timestamp
        (snd (handleTokenCreate (example_world\<lparr>now_kafka := 1700000005001\<rparr>) ''V2''
            example_create_event example_monitor))
     = Inr ''2023-11-14T22:13:25.001Z''
   \<and> snd (handleTokenCreate example_world ''V2'' example_create_event example_monitor)
     \<noteq> snd (handleTokenCreate example_world ''V2'' example_create_event fresh_monitor)
   \<and> map_sum id block_time
        (snd (handleTokenCreate example_world ''V2'' example_create_event example_monitor))
     = Inr 1700000000
   \<and> map_sum id block_time
        (snd (handleTokenCreate example_world ''V2'' example_create_event fresh_monitor))
     = Inr 1700000005"
proof -
  have later: "map_sum id kafka_timestamp
        (snd (handleTokenCreate (example_world\<lparr>now_kafka := 1700000005001\<rparr>) ''V2''
            example_create_event example_monitor))
     = Inr ''2023-11-14T22:13:25.001Z''"
    by (simp add: handleTokenCreate_def example_provider example_block_time example_create_args
        format_supply Let_def generateKafkaTimestamp_def iso_1700000005001)
  have first: "map_sum id kafka_timestamp
        (snd (handleTokenCreate example_world ''V2'' example_create_event example_monitor))
     = Inr ''2023-11-14T22:13:25.000Z''"
    by (simp add: example_create_result example_create_record_def)
  have cached: "map_sum id block_time
        (snd (handleTokenCreate example_world ''V2'' example_create_event example_monitor))
     = Inr 1700000000"
    by (simp add: example_create_result example_create_record_def)
  have empty: "map_sum id block_time
        (snd (handleTokenCreate example_world ''V2'' example_create_event fresh_monitor))
     = Inr 1700000005"
    by (simp add: fresh_create_record(2))
  from first later cached empty show ?thesis by auto
qed

text \<open>
  C9, amended. Let the same raw log be decoded twice, in any two module states in which
  the provider lookup gives the same (an exception, or a session), and in two worlds that
  answer the auxiliary calls alike. Then the two results (records, or exceptions) agree in
  everything except the record's \<open>block_time\<close> and \<open>kafka_timestamp\<close>. They agree in
  \<open>block_time\<close> too whenever the two invocations resolve the same block time, and are equal
  whenever in addition they read the same wall-clock time for \<open>kafka_timestamp\<close>. The
  \<open>block_time\<close> of a record is the block time that its invocation resolved, from the block
  cache, the provider and the wall clock. Two invocations resolve the same block time when
  both states hold the log's block in the cache with the same non-zero timestamp. And a
  second decode that runs in the state that the first one left, whatever the state before
  the first (an empty cache included), with the provider answering its fetches as before,
  resolves the same block time, hence gives the same record up to \<open>kafka_timestamp\<close>,
  provided that the first decode found a non-zero block timestamp or else that the two
  invocations read the same wall-clock time for the fallback \<open>block_time\<close>. No other state
  of the module (created-token index, bus, producer, other cache entries) affects the
  record.
\<close>

theorem C9_decode_twice:
  "same_answers w1 w2 \<Longrightarrow>
   (connection_status m2 = connection_status m1 \<longrightarrow>
      map_sum id without_times (snd (handle_event w2 kind cv ev m2))
        = map_sum id without_times (snd (handle_event w1 kind cv ev m1))
      \<and> (snd (resolve_block_time w2 ev m2) = snd (resolve_block_time w1 ev m1) \<longrightarrow>
           map_sum id without_kafka_timestamp (snd (handle_event w2 kind cv ev m2))
             = map_sum id without_kafka_timestamp (snd (handle_event w1 kind cv ev m1))
           \<and> (now_kafka w2 = now_kafka w1 \<longrightarrow>
                snd (handle_event w2 kind cv ev m2) = snd (handle_event w1 kind cv ev m1))))
   \<and> (\<forall>r. snd (handle_event w1 kind cv ev m1) = Inr r \<longrightarrow>
          event_block_time r = snd (resolve_block_time w1 ev m1))
   \<and> (cache_get (blockTimeManager m1) (blockNumber ev) = Some ts
        \<and> cache_get (blockTimeManager m2) (blockNumber ev) = Some ts \<and> ts \<noteq> 0 \<longrightarrow>
      snd (resolve_block_time w2 ev m2) = snd (resolve_block_time w1 ev m1))
   \<and> (getBlock w2 = getBlock w1
        \<and> (now_block_time w2 = now_block_time w1
           \<or> timestamp_resolved (fst (getBlockTimestamp_default (getBlock w1) (blockNumber ev)
                 (blockTimeManager m1)))) \<longrightarrow>
      map_sum id without_kafka_timestamp
          (snd (handle_event w2 kind cv ev (fst (handle_event w1 kind cv ev m1))))
        = map_sum id without_kafka_timestamp (snd (handle_event w1 kind cv ev m1))
      \<and> (now_kafka w2 = now_kafka w1 \<longrightarrow>
           snd (handle_event w2 kind cv ev (fst (handle_event w1 kind cv ev m1)))
             = snd (handle_event w1 kind cv ev m1)))"
proof -
  assume sa: "same_answers w1 w2"
  let ?m' = "fst (handle_event w1 kind cv ev m1)"
  have status: "connection_status ?m' = connection_status m1"
    using getProvider_cong [OF handle_event_state(1), of w1 kind cv ev m1]
    by (simp add: connection_status_def)
  have again: "snd (resolve_block_time w2 ev ?m') = snd (resolve_block_time w1 ev m1)"
    if "getBlock w2 = getBlock w1"
      and "now_block_time w2 = now_block_time w1
           \<or> timestamp_resolved (fst (getBlockTimestamp_default (getBlock w1) (blockNumber ev)
                 (blockTimeManager m1)))"
    using resolved_again [OF that(1) handle_event_state(2) that(2)] .
  have cached: "snd (resolve_block_time w2 ev m2) = snd (resolve_block_time w1 ev m1)"
    if "cache_get (blockTimeManager m1) (blockNumber ev) = Some ts"
      and "cache_get (blockTimeManager m2) (blockNumber ev) = Some ts" and "ts \<noteq> 0"
    using that by (simp add: resolve_block_time_hit block_time_of_def)
  show ?thesis
    using handle_event_twice_times [OF sa, of m2 m1 kind cv ev]
      handle_event_twice [OF sa, of m2 m1 ev kind cv]
      handle_event_block_time [of w1 kind cv ev m1]
      cached
      handle_event_twice [OF sa status again, of kind cv]
    by blast
qed

theorem C9_decode_twice_witness:
  "map_sum id without_kafka_timestamp
     (snd (handle_event (fetching_world\<lparr>now_kafka := 1700000005001\<rparr>) TokenCreate ''V2''
        example_create_event
        (fst (handle_event fetching_world TokenCreate ''V2'' example_create_event
           fresh_monitor))))
   = Inr (without_kafka_timestamp (Created example_create_record))
   \<and> snd (handle_event fetching_world TokenCreate ''V2'' example_create_event
        (fst (handleTokenCreate example_world ''V2'' example_create_event example_monitor)))
     = Inr (Created example_create_record)
   \<and> map_sum id without_times
       (snd (handle_event example_world TokenCreate ''V2'' example_create_event fresh_monitor))
     = Inr (without_times (Created example_create_record))
   \<and> snd (resolve_block_time example_world example_create_event example_monitor)
     = event_block_time (Created example_create_record)"
proof -
  let ?later = "fetching_world\<lparr>now_kafka := 1700000005001\<rparr>"
  let ?m2 = "fst (handleTokenCreate example_world ''V2'' example_create_event example_monitor)"
  have first: "snd (handle_event fetching_world TokenCreate ''V2'' example_create_event
      fresh_monitor) = Inr (Created example_create_record)"
    by (simp add: handle_event_def fresh_create_record(1))
  have cached: "snd (handle_event example_world TokenCreate ''V2'' example_create_event
      example_monitor) = Inr (Created example_create_record)"
    by (simp add: handle_event_def example_create_result)
  have sa: "same_answers fetching_world ?later" "same_answers example_world fetching_world"
    "same_answers example_world example_world"
    by (simp_all add: same_answers_def fetching_world_def)
  have resolved: "timestamp_resolved (fst (getBlockTimestamp_default (getBlock fetching_world)
      (blockNumber example_create_event) (blockTimeManager fresh_monitor)))"
    by (simp add: fresh_lookup timestamp_resolved_def)
  have st: "connection_status ?m2 = connection_status example_monitor"
    "connection_status fresh_monitor = connection_status example_monitor"
    by (simp_all add: connection_status_def example_create_result getProvider_def
        fresh_monitor_def)
  have c2: "cache_get (blockTimeManager ?m2) (blockNumber example_create_event)
      = Some 1700000000000"
    using example_create_cached by (simp add: example_create_result cache_get_def)
  have k: "now_kafka fetching_world = now_kafka example_world"
    by (simp add: fetching_world_def)
  have a: "map_sum id without_kafka_timestamp
     (snd (handle_event ?later TokenCreate ''V2'' example_create_event
        (fst (handle_event fetching_world TokenCreate ''V2'' example_create_event
           fresh_monitor))))
   = Inr (without_kafka_timestamp (Created example_create_record))"
    using C9_decode_twice [OF sa(1), of fresh_monitor fresh_monitor TokenCreate "''V2''"
        example_create_event 0] resolved
    by (simp add: first)
  have b: "snd (handle_event fetching_world TokenCreate ''V2'' example_create_event ?m2)
     = Inr (Created example_create_record)"
    using C9_decode_twice [OF sa(2), of ?m2 example_monitor TokenCreate "''V2''"
        example_create_event 1700000000000] st(1) c2 example_create_cached k
    by (simp add: cached)
  have c: "map_sum id without_times
       (snd (handle_event example_world TokenCreate ''V2'' example_create_event fresh_monitor))
     = Inr (without_times (Created example_create_record))
   \<and> snd (resolve_block_time example_world example_create_event example_monitor)
     = event_block_time (Created example_create_record)"
    using C9_decode_twice [OF sa(3), of fresh_monitor example_monitor TokenCreate "''V2''"
        example_create_event 0] st(2)
    by (simp add: cached)
  from a b c show ?thesis by simp
qed

end
